theory Spec2Isabelle
  imports Main "HOL-Library.Word"
begin

unbundle bit_operations_syntax

section \<open>The child-process subsystem of textadept_gtk.c\<close>

text \<open>
  The functions of \<^verbatim>\<open>src/textadept_gtk.c\<close> that spawn a child process, watch its output
  and its exit, clean up after it and read its output on demand, embedded as functions
  on an explicit world. The world holds what the C code reaches through pointers and
  through the operating system: the \<^verbatim>\<open>struct Process\<close> objects, the GLib channels, the
  sources registered with the GLib main loop, the open descriptors and handles, and a
  trace of the calls that leave the subsystem.

  GLib, the C library and the operating system are not part of the repository. What
  they answer is a parameter of the model (the record \<open>env\<close>); what they do to the world
  is written down from their documentation in the subsection on the environment.
\<close>

subsection \<open>Data\<close>

type_synonym byte = "8 word"

text \<open>The address of a \<^verbatim>\<open>struct Process\<close>: the user data of its event sources.\<close>
type_synonym addr = nat

text \<open>A \<^verbatim>\<open>GIOChannel *\<close>.\<close>
type_synonym chan = nat

datatype platform = POSIX | WIN32

text \<open>
  \<^verbatim>\<open>struct Process\<close>. \<open>pid\<close> and \<open>fstdin\<close> are \<^verbatim>\<open>int\<close> on POSIX and \<^verbatim>\<open>HANDLE\<close> on
  Windows; both are identifiers here, 0 being the null one that \<^verbatim>\<open>!proc->pid\<close> tests.
\<close>
record Process =
  pid :: int
  fstdin :: int
  fstdout :: int
  fstderr :: int
  exit_status :: "32 word"
  cstdout :: chan
  cstderr :: chan

datatype GIOStatus =
  G_IO_STATUS_ERROR | G_IO_STATUS_NORMAL | G_IO_STATUS_EOF | G_IO_STATUS_AGAIN

record GError =
  message :: string
  code :: int

text \<open>A C pointer to a byte buffer: null, pointing to bytes, or never assigned.\<close>
datatype buffer = NULL | Ptr "byte list" | Uninitialized

text \<open>The fields of a \<^verbatim>\<open>GIOChannel\<close> that the subsystem depends on.\<close>
record GIOChannel =
  chan_fd :: int
  encoding :: "string option"
  use_buffer :: bool
  read_buf :: "byte list"
  ref_count :: nat

text \<open>
  A source of the GLib main loop: an I/O watch on a channel for a set of conditions
  (its callback is always \<^verbatim>\<open>read_channel\<close>), or a child watch on a pid (its callback is
  always \<^verbatim>\<open>proc_exited\<close>). Each is registered together with its user data.
\<close>
datatype source = IOWatch chan "32 word" | ChildWatch int

text \<open>Calls that leave the subsystem, in the order they happen.\<close>
datatype event =
    Output addr "byte list" bool
  | Exited addr "32 word"
  | Closed int
  | HandleClosed int
  | Read chan bool
  | SetBuffered chan bool

text \<open>What one GLib read call on a channel answers.\<close>
record outcome =
  o_status :: GIOStatus
  o_data :: "byte list"
  o_err :: "GError option"
  o_left :: "byte list"

text \<open>
  The answers of the environment.
  \<^item> \<open>BUFSIZ\<close>: the macro of \<^verbatim>\<open><stdio.h>\<close>.
  \<^item> \<open>g_shell_parse_argv\<close>: the argument vector GLib parses from a command line, or the
    message of the error it reports.
  \<^item> \<open>spawn_error\<close>: the message of the error \<^verbatim>\<open>g_spawn_async_with_pipes\<close> reports for a
    working directory, an argument vector and an environment; \<open>None\<close> when it succeeds.
  \<^item> \<open>create_error\<close>: the same for \<^verbatim>\<open>CreateProcessA\<close> (the message \<^verbatim>\<open>FormatMessageA\<close>
    gives for \<^verbatim>\<open>GetLastError()\<close>), for a command line, an environment block and a
    working directory.
  \<^item> \<open>COMSPEC\<close>: the value of that environment variable.
  \<^item> \<open>reads\<close>: what the \<open>n\<close>-th GLib read call answers.
  \<^item> \<open>stray\<close>: the byte found in memory at an index outside a buffer.
\<close>
record env =
  platform :: platform
  BUFSIZ :: nat
  g_shell_parse_argv :: "string \<Rightarrow> string + string list"
  spawn_error :: "string option \<Rightarrow> string list \<Rightarrow> string list option \<Rightarrow> string option"
  create_error :: "string \<Rightarrow> string option \<Rightarrow> string option \<Rightarrow> string option"
  COMSPEC :: string
  reads :: "nat \<Rightarrow> outcome"
  stray :: "nat \<Rightarrow> byte"

record world =
  procs :: "addr \<Rightarrow> Process"
  chans :: "chan \<Rightarrow> GIOChannel"
  next_chan :: chan
  sources :: "(source \<times> addr) list"
  fds :: "int set"
  handles :: "int set"
  next_id :: int
  tick :: nat
  trace :: "event list"

subsection \<open>The environment: callbacks, GLib, the operating system\<close>

text \<open>
  Modelled from the spec: \<^verbatim>\<open>process_output\<close>, the output sink callback, is declared by
  the repository but defined outside \<^verbatim>\<open>src/\<close>. The spec gives its interface: it is
  invoked with the Process Handle, a byte chunk with its length, and whether the chunk
  came from stdout. The model records the invocation.
\<close>
definition process_output :: "addr \<Rightarrow> byte list \<Rightarrow> bool \<Rightarrow> world \<Rightarrow> world" where
  "process_output p chunk is_stdout w = w\<lparr>trace := trace w @ [Output p chunk is_stdout]\<rparr>"

text \<open>
  Modelled from the spec: \<^verbatim>\<open>process_exited\<close>, the exit callback, is declared by the
  repository but defined outside \<^verbatim>\<open>src/\<close>. The spec gives its interface: it is invoked
  with the Process Handle and the exit status. The model records the invocation.
\<close>
definition process_exited :: "addr \<Rightarrow> 32 word \<Rightarrow> world \<Rightarrow> world" where
  "process_exited p status w = w\<lparr>trace := trace w @ [Exited p status]\<rparr>"

text \<open>The bits of \<^verbatim>\<open>GIOCondition\<close> the code tests.\<close>
definition G_IO_IN :: "32 word" where "G_IO_IN = 1"
definition G_IO_HUP :: "32 word" where "G_IO_HUP = 16"

text \<open>
  The macros of \<^verbatim>\<open><sys/wait.h>\<close> on a wait status, in the encoding Linux and the BSDs
  use: the low seven bits hold the terminating signal (0 for a normal exit), the second
  byte holds the exit code.
\<close>
definition WIFEXITED :: "32 word \<Rightarrow> bool" where
  "WIFEXITED status = (status AND 0x7f = 0)"

definition WEXITSTATUS :: "32 word \<Rightarrow> 32 word" where
  "WEXITSTATUS status = drop_bit 8 (status AND 0xff00)"

definition upd_proc :: "addr \<Rightarrow> (Process \<Rightarrow> Process) \<Rightarrow> world \<Rightarrow> world" where
  "upd_proc p f w = w\<lparr>procs := (procs w)(p := f (procs w p))\<rparr>"

definition upd_chan :: "chan \<Rightarrow> (GIOChannel \<Rightarrow> GIOChannel) \<Rightarrow> world \<Rightarrow> world" where
  "upd_chan c f w = w\<lparr>chans := (chans w)(c := f (chans w c))\<rparr>"

text \<open>
  \<^verbatim>\<open>g_io_channel_unix_new\<close> and \<^verbatim>\<open>g_io_channel_win32_new_fd\<close>: a fresh channel on the
  descriptor, buffered, encoded as UTF-8, with one reference.
\<close>
definition g_io_channel_new :: "int \<Rightarrow> world \<Rightarrow> chan \<times> world" where
  "g_io_channel_new fd w =
     (let c = next_chan w
      in (c, w\<lparr>chans := (chans w)(c := \<lparr>chan_fd = fd, encoding = Some ''UTF-8'',
                   use_buffer = True, read_buf = [], ref_count = 1\<rparr>),
               next_chan := c + 1\<rparr>))"

text \<open>\<^verbatim>\<open>g_io_channel_set_encoding\<close>: refused while bytes sit in the read buffer.\<close>
definition g_io_channel_set_encoding :: "chan \<Rightarrow> string option \<Rightarrow> world \<Rightarrow> world" where
  "g_io_channel_set_encoding c enc w =
     (if read_buf (chans w c) = [] then upd_chan c (\<lambda>ch. ch\<lparr>encoding := enc\<rparr>) w else w)"

definition g_io_channel_get_buffered :: "chan \<Rightarrow> world \<Rightarrow> bool" where
  "g_io_channel_get_buffered c w = use_buffer (chans w c)"

text \<open>
  \<^verbatim>\<open>g_io_channel_set_buffered\<close>: GLib changes the buffering state only of a channel whose
  encoding is null and whose read buffer is empty; otherwise the call returns without
  effect.
\<close>
definition g_io_channel_set_buffered :: "chan \<Rightarrow> bool \<Rightarrow> world \<Rightarrow> world" where
  "g_io_channel_set_buffered c b w =
     (if encoding (chans w c) = None \<and> read_buf (chans w c) = []
      then (upd_chan c (\<lambda>ch. ch\<lparr>use_buffer := b\<rparr>) w)\<lparr>trace := trace w @ [SetBuffered c b]\<rparr>
      else w)"

text \<open>
  \<^verbatim>\<open>g_io_channel_get_buffer_condition\<close>: \<^verbatim>\<open>G_IO_IN\<close> is set when the read buffer holds
  bytes.
\<close>
definition g_io_channel_get_buffer_condition :: "chan \<Rightarrow> world \<Rightarrow> 32 word" where
  "g_io_channel_get_buffer_condition c w = (if read_buf (chans w c) = [] then 0 else G_IO_IN)"

definition g_io_channel_unref :: "chan \<Rightarrow> world \<Rightarrow> world" where
  "g_io_channel_unref c w = upd_chan c (\<lambda>ch. ch\<lparr>ref_count := ref_count ch - 1\<rparr>) w"

text \<open>\<^verbatim>\<open>g_io_add_watch\<close>: a new source that holds a reference to the channel.\<close>
definition g_io_add_watch :: "chan \<Rightarrow> 32 word \<Rightarrow> addr \<Rightarrow> world \<Rightarrow> world" where
  "g_io_add_watch c cond p w =
     (upd_chan c (\<lambda>ch. ch\<lparr>ref_count := ref_count ch + 1\<rparr>) w)
       \<lparr>sources := sources w @ [(IOWatch c cond, p)]\<rparr>"

definition g_child_watch_add :: "int \<Rightarrow> addr \<Rightarrow> world \<Rightarrow> world" where
  "g_child_watch_add cpid p w = w\<lparr>sources := sources w @ [(ChildWatch cpid, p)]\<rparr>"

text \<open>Destroying a source releases what it holds: an I/O watch its channel reference.\<close>
fun source_finalize :: "source \<Rightarrow> world \<Rightarrow> world" where
  "source_finalize (IOWatch c cond) w = g_io_channel_unref c w"
| "source_finalize (ChildWatch cpid) w = w"

text \<open>
  \<^verbatim>\<open>g_source_remove_by_user_data\<close>: destroys one source registered with the user data,
  the first one found; without such a source nothing happens.
\<close>
definition g_source_remove_by_user_data :: "addr \<Rightarrow> world \<Rightarrow> world" where
  "g_source_remove_by_user_data ud w =
     (case find (\<lambda>s. snd s = ud) (sources w) of
        None \<Rightarrow> w
      | Some s \<Rightarrow> source_finalize (fst s) (w\<lparr>sources := remove1 s (sources w)\<rparr>))"

text \<open>
  One read call on a channel. The environment answers; the call is recorded with the
  buffering state it found. A buffered channel keeps in its read buffer what the call
  left there; an unbuffered one reads past the buffer.
\<close>
definition channel_read :: "env \<Rightarrow> chan \<Rightarrow> world \<Rightarrow> outcome \<times> world" where
  "channel_read e c w =
     (let out = reads e (tick w);
          b = use_buffer (chans w c);
          w1 = (if b then upd_chan c (\<lambda>ch. ch\<lparr>read_buf := o_left out\<rparr>) w else w)
      in (out, w1\<lparr>tick := tick w + 1, trace := trace w @ [Read c b]\<rparr>))"

text \<open>\<^verbatim>\<open>g_io_channel_read_chars\<close>: at most \<open>count\<close> bytes.\<close>
definition g_io_channel_read_chars ::
  "env \<Rightarrow> chan \<Rightarrow> nat \<Rightarrow> world \<Rightarrow> (GIOStatus \<times> byte list \<times> GError option) \<times> world" where
  "g_io_channel_read_chars e c count w =
     (let (out, w1) = channel_read e c w
      in ((o_status out, take count (o_data out), o_err out), w1))"

text \<open>\<^verbatim>\<open>g_io_channel_read_line_string\<close>: one line, its terminator included.\<close>
definition g_io_channel_read_line_string ::
  "env \<Rightarrow> chan \<Rightarrow> world \<Rightarrow> (GIOStatus \<times> byte list \<times> GError option) \<times> world" where
  "g_io_channel_read_line_string e c w =
     (let (out, w1) = channel_read e c w
      in ((o_status out, o_data out, o_err out), w1))"

text \<open>
  \<^verbatim>\<open>g_io_channel_read_to_end\<close>: all bytes up to the end of the stream. The returned
  pointer is null and the length 0 unless the call succeeds.
\<close>
definition g_io_channel_read_to_end ::
  "env \<Rightarrow> chan \<Rightarrow> world \<Rightarrow> (GIOStatus \<times> buffer \<times> nat \<times> GError option) \<times> world" where
  "g_io_channel_read_to_end e c w =
     (let (out, w1) = channel_read e c w
      in (if o_status out = G_IO_STATUS_NORMAL
          then (o_status out, Ptr (o_data out), length (o_data out), o_err out)
          else (o_status out, NULL, 0, o_err out), w1))"

text \<open>POSIX \<^verbatim>\<open>close\<close> and the C runtime's \<^verbatim>\<open>_close\<close>.\<close>
definition close :: "int \<Rightarrow> world \<Rightarrow> world" where
  "close fd w = w\<lparr>fds := fds w - {fd}, trace := trace w @ [Closed fd]\<rparr>"

definition CloseHandle :: "int \<Rightarrow> world \<Rightarrow> world" where
  "CloseHandle h w = w\<lparr>handles := handles w - {h}, trace := trace w @ [HandleClosed h]\<rparr>"

text \<open>\<^verbatim>\<open>g_spawn_close_pid\<close>: \<^verbatim>\<open>CloseHandle\<close> on Windows, nothing elsewhere.\<close>
definition g_spawn_close_pid :: "env \<Rightarrow> int \<Rightarrow> world \<Rightarrow> world" where
  "g_spawn_close_pid e cpid w = (case platform e of POSIX \<Rightarrow> w | WIN32 \<Rightarrow> CloseHandle cpid w)"

text \<open>
  \<^verbatim>\<open>g_spawn_async_with_pipes\<close>: on success a child and the parent's ends of three pipes;
  on failure GLib has closed whatever it had opened and hands nothing out.
\<close>
definition g_spawn_async_with_pipes ::
  "env \<Rightarrow> string option \<Rightarrow> string list \<Rightarrow> string list option \<Rightarrow> world
     \<Rightarrow> (string + int \<times> int \<times> int \<times> int) \<times> world" where
  "g_spawn_async_with_pipes e cwd argv envp w =
     (case spawn_error e cwd argv envp of
        Some msg \<Rightarrow> (Inl msg, w)
      | None \<Rightarrow>
          (let i = next_id w
           in (Inr (i, i + 1, i + 2, i + 3),
               w\<lparr>fds := fds w \<union> {i + 1, i + 2, i + 3}, next_id := i + 4\<rparr>)))"

text \<open>\<^verbatim>\<open>CreatePipe\<close>: two fresh handles, the read end and the write end.\<close>
definition CreatePipe :: "world \<Rightarrow> (int \<times> int) \<times> world" where
  "CreatePipe w =
     (let i = next_id w
      in ((i, i + 1), w\<lparr>handles := handles w \<union> {i, i + 1}, next_id := i + 2\<rparr>))"

text \<open>\<^verbatim>\<open>CreateProcessA\<close>: on success the handles of the process and of its thread.\<close>
definition CreateProcessA ::
  "env \<Rightarrow> string \<Rightarrow> string option \<Rightarrow> string option \<Rightarrow> world
     \<Rightarrow> (string + int \<times> int) \<times> world" where
  "CreateProcessA e cmd envp cwd w =
     (case create_error e cmd envp cwd of
        Some msg \<Rightarrow> (Inl msg, w)
      | None \<Rightarrow>
          (let i = next_id w
           in (Inr (i, i + 1), w\<lparr>handles := handles w \<union> {i, i + 1}, next_id := i + 2\<rparr>)))"

text \<open>\<^verbatim>\<open>_open_osfhandle\<close>: a fresh descriptor that takes over the handle.\<close>
definition open_osfhandle :: "int \<Rightarrow> world \<Rightarrow> int \<times> world" where
  "open_osfhandle h w =
     (let i = next_id w
      in (i, w\<lparr>handles := handles w - {h}, fds := fds w \<union> {i}, next_id := i + 1\<rparr>))"

subsection \<open>The functions of the source\<close>

text \<open>
  The loop of \<^verbatim>\<open>read_channel\<close>: read up to \<^verbatim>\<open>BUFSIZ\<close> bytes, hand a non-empty chunk read
  with normal status to the sink, and go on while the read filled the buffer. Nothing
  bounds the number of rounds, so the loop returns an option: \<open>None\<close> is the loop that
  never ends.
\<close>
partial_function (option) read_loop :: "env \<Rightarrow> chan \<Rightarrow> addr \<Rightarrow> world \<Rightarrow> world option" where
  "read_loop e source' p w =
     (let r = g_io_channel_read_chars e source' (BUFSIZ e) w;
          status = fst (fst r);
          chunk = fst (snd (fst r));
          w1 = snd r;
          w2 = (if status = G_IO_STATUS_NORMAL \<and> length chunk > 0
                then process_output p chunk (source' = cstdout (procs w1 p)) w1
                else w1)
      in if length chunk = BUFSIZ e then read_loop e source' p w2 else Some w2)"

text \<open>
  \<^verbatim>\<open>read_channel\<close>, the callback of the I/O watches. The boolean tells the main loop
  whether to keep the source.
\<close>
definition read_channel ::
  "env \<Rightarrow> chan \<Rightarrow> 32 word \<Rightarrow> addr \<Rightarrow> world \<Rightarrow> (bool \<times> world) option" where
  "read_channel e source' cond p w =
     (if pid (procs w p) = 0 \<or> cond AND G_IO_IN = 0 then Some (False, w)
      else case read_loop e source' p w of
             None \<Rightarrow> None
           | Some w' \<Rightarrow> Some (pid (procs w' p) \<noteq> 0 \<and> cond AND G_IO_HUP = 0, w'))"

definition new_channel :: "env \<Rightarrow> int \<Rightarrow> addr \<Rightarrow> bool \<Rightarrow> world \<Rightarrow> chan \<times> world" where
  "new_channel e fd p watch w =
     (let (channel, w1) = g_io_channel_new fd w;
          w2 = g_io_channel_set_buffered channel False
                 (g_io_channel_set_encoding channel None w1);
          w3 = (if watch
                then g_io_channel_unref channel
                       (g_io_add_watch channel (G_IO_IN OR G_IO_HUP) p w2)
                else w2)
      in (channel, w3))"

definition cleanup_process :: "env \<Rightarrow> addr \<Rightarrow> 32 word \<Rightarrow> world \<Rightarrow> world" where
  "cleanup_process e p status w =
     (let w1 = g_source_remove_by_user_data p w;
          w2 = g_source_remove_by_user_data p w1;
          w3 = g_source_remove_by_user_data p w2;
          w4 = upd_proc p (\<lambda>pr. pr\<lparr>pid := 0\<rparr>) (g_spawn_close_pid e (pid (procs w3 p)) w3);
          pr = procs w4 p;
          w5 = (case platform e of
                  POSIX \<Rightarrow> close (fstderr pr) (close (fstdout pr) (close (fstdin pr) w4))
                | WIN32 \<Rightarrow> close (fstderr pr) (close (fstdout pr) (CloseHandle (fstdin pr) w4)));
          w6 = upd_proc p (\<lambda>pr. pr\<lparr>exit_status := status\<rparr>) w5
      in process_exited p status w6)"

text \<open>\<^verbatim>\<open>proc_exited\<close>, the callback of the child watch; its first argument is unused.\<close>
definition proc_exited :: "env \<Rightarrow> int \<Rightarrow> 32 word \<Rightarrow> addr \<Rightarrow> world \<Rightarrow> world" where
  "proc_exited e cpid status p w = cleanup_process e p status w"

text \<open>The last lines of \<^verbatim>\<open>spawn\<close>, common to both platforms.\<close>
definition monitor :: "env \<Rightarrow> addr \<Rightarrow> bool \<Rightarrow> bool \<Rightarrow> world \<Rightarrow> world" where
  "monitor e p monitor_stdout monitor_stderr w =
     (let (c1, w1) = new_channel e (fstdout (procs w p)) p monitor_stdout w;
          w2 = upd_proc p (\<lambda>pr. pr\<lparr>cstdout := c1\<rparr>) w1;
          (c2, w3) = new_channel e (fstderr (procs w2 p)) p monitor_stderr w2;
          w4 = upd_proc p (\<lambda>pr. pr\<lparr>cstderr := c2\<rparr>) w3
      in g_child_watch_add (pid (procs w4 p)) p w4)"

text \<open>
  \<^verbatim>\<open>spawn\<close>. The Lua table of environment entries is the list \<open>envi\<close> (\<open>None\<close> for index
  0). The result is \<open>Inl\<close> of the message stored in \<^verbatim>\<open>*error\<close> when the function returns
  false, \<open>Inr\<close> when it returns true.
\<close>
definition spawn ::
  "env \<Rightarrow> addr \<Rightarrow> string \<Rightarrow> string option \<Rightarrow> string list option \<Rightarrow> bool \<Rightarrow> bool \<Rightarrow> world
     \<Rightarrow> (string + unit) \<times> world" where
  "spawn e p cmd cwd envi monitor_stdout monitor_stderr w =
     (case platform e of
        POSIX \<Rightarrow>
          (case g_shell_parse_argv e cmd of
             Inl msg \<Rightarrow> (Inl msg, w)
           | Inr argv \<Rightarrow>
               (case g_spawn_async_with_pipes e cwd argv envi w of
                  (Inl msg, w1) \<Rightarrow> (Inl msg, w1)
                | (Inr (cpid, fin, fout, ferr), w1) \<Rightarrow>
                    (Inr (), monitor e p monitor_stdout monitor_stderr
                       (upd_proc p (\<lambda>pr. pr\<lparr>pid := cpid, fstdin := fin, fstdout := fout,
                                              fstderr := ferr\<rparr>) w1))))
      | WIN32 \<Rightarrow>
          (let cmd' = COMSPEC e @ '' /c '' @ cmd;
               envp = map_option (\<lambda>es. concat (map (\<lambda>s. s @ [CHR 0x00]) es) @ [CHR 0x00]) envi;
               ((stdin_read, stdin_write), w1) = CreatePipe w;
               w2 = upd_proc p (\<lambda>pr. pr\<lparr>fstdin := stdin_write\<rparr>) w1;
               ((proc_stdout, stdout_write), w3) = CreatePipe w2;
               ((proc_stderr, stderr_write), w4) = CreatePipe w3
           in case CreateProcessA e cmd' envp cwd w4 of
                (Inl msg, w5) \<Rightarrow> (Inl msg, w5)
              | (Inr (hProcess, hThread), w5) \<Rightarrow>
                  (let w6 = upd_proc p (\<lambda>pr. pr\<lparr>pid := hProcess\<rparr>) w5;
                       (fd1, w7) = open_osfhandle proc_stdout w6;
                       w8 = upd_proc p (\<lambda>pr. pr\<lparr>fstdout := fd1\<rparr>) w7;
                       (fd2, w9) = open_osfhandle proc_stderr w8;
                       w10 = upd_proc p (\<lambda>pr. pr\<lparr>fstderr := fd2\<rparr>) w9;
                       w11 = CloseHandle stderr_write (CloseHandle stdout_write
                               (CloseHandle stdin_read (CloseHandle hThread w10)))
                   in (Inr (), monitor e p monitor_stdout monitor_stderr w11))))"

definition is_process_running :: "addr \<Rightarrow> world \<Rightarrow> bool" where
  "is_process_running p w = (pid (procs w p) \<noteq> 0)"

text \<open>
  \<^verbatim>\<open>wait_process\<close>. \<open>raw\<close> is what the operating system reports once the child has
  exited: the wait status of \<^verbatim>\<open>waitpid\<close>, or the exit code of \<^verbatim>\<open>GetExitCodeProcess\<close>.
\<close>
definition wait_process :: "env \<Rightarrow> addr \<Rightarrow> 32 word \<Rightarrow> world \<Rightarrow> world" where
  "wait_process e p raw w =
     (let status = (case platform e of
                      POSIX \<Rightarrow> (if WIFEXITED raw then WEXITSTATUS raw else 1)
                    | WIN32 \<Rightarrow> raw)
      in cleanup_process e p status w)"

definition get_process_exit_status :: "addr \<Rightarrow> world \<Rightarrow> 32 word" where
  "get_process_exit_status p w = exit_status (procs w p)"

text \<open>\<^verbatim>\<open>SIZE_MAX\<close> of a 64-bit target, what \<^verbatim>\<open>*len - 1\<close> is for a \<^verbatim>\<open>*len\<close> of 0.\<close>
definition SIZE_MAX :: nat where
  "SIZE_MAX = 2 ^ 64 - 1"

definition size_dec :: "nat \<Rightarrow> nat" where
  "size_dec n = (if n = 0 then SIZE_MAX else n - 1)"

text \<open>
  \<^verbatim>\<open>buf[i]\<close>. C does not check the index: outside the bytes of the buffer the read
  finds whatever the environment has there.
\<close>
definition byte_at :: "env \<Rightarrow> buffer \<Rightarrow> nat \<Rightarrow> byte" where
  "byte_at e buf i =
     (case buf of Ptr bs \<Rightarrow> (if i < length bs then bs ! i else stray e i) | _ \<Rightarrow> stray e i)"

datatype fault = NullDereference

text \<open>
  What \<^verbatim>\<open>read_process_output\<close> hands back: the returned pointer and the final values
  of \<^verbatim>\<open>*len\<close>, \<^verbatim>\<open>*error\<close> and \<^verbatim>\<open>*code\<close>.
\<close>
record read_result =
  rbuf :: buffer
  rlen :: nat
  rerror :: "string option"
  rcode :: int

text \<open>
  \<^verbatim>\<open>read_process_output\<close>. \<open>len0\<close>, \<open>error0\<close> and \<open>code0\<close> are the values the caller has
  in \<^verbatim>\<open>*len\<close>, \<^verbatim>\<open>*error\<close> and \<^verbatim>\<open>*code\<close>. \<^verbatim>\<open>err->message\<close> on a null \<^verbatim>\<open>err\<close> is a fault.
\<close>
definition read_process_output ::
  "env \<Rightarrow> addr \<Rightarrow> char \<Rightarrow> nat \<Rightarrow> string option \<Rightarrow> int \<Rightarrow> world
     \<Rightarrow> (fault + read_result) \<times> world" where
  "read_process_output e p opt len0 error0 code0 w =
     (let c = cstdout (procs w p);
          w1 = (if \<not> g_io_channel_get_buffered c w
                then g_io_channel_set_buffered c True w else w);
          ((status, buf, len, err), w2) =
            (if opt = CHR ''l'' \<or> opt = CHR ''L'' then
               (let ((st, s, er), w') = g_io_channel_read_line_string e c w1
                in ((st, Ptr s, length s, er), w'))
             else if opt = CHR ''a'' then
               (let ((st, b, n, er), w') = g_io_channel_read_to_end e c w1
                in ((if st = G_IO_STATUS_EOF then G_IO_STATUS_NORMAL else st, b, n, er), w'))
             else if opt = CHR ''n'' then
               (let ((st, bs, er), w') = g_io_channel_read_chars e c len0 w1
                in ((st, Ptr bs, length bs, er), w'))
             else ((G_IO_STATUS_NORMAL, Uninitialized, len0, None), w1));
          w3 = (if g_io_channel_get_buffer_condition c w2 AND G_IO_IN = 0
                then g_io_channel_set_buffered c False w2 else w2);
          len1 = (if opt = CHR ''l'' \<and> byte_at e buf (size_dec len) = 0x0A
                  then size_dec len else len);
          len2 = (if opt = CHR ''l'' \<and> byte_at e buf (size_dec len1) = 0x0D
                  then size_dec len1 else len1)
      in if status = G_IO_STATUS_EOF
         then (Inr \<lparr>rbuf = NULL, rlen = len2, rerror = None, rcode = code0\<rparr>, w3)
         else if status \<noteq> G_IO_STATUS_NORMAL
         then (case err of
                 None \<Rightarrow> (Inl NullDereference, w3)
               | Some ge \<Rightarrow>
                   (Inr \<lparr>rbuf = NULL, rlen = len2, rerror = Some (message ge),
                         rcode = code ge\<rparr>, w3))
         else (Inr \<lparr>rbuf = buf, rlen = len2, rerror = error0, rcode = code0\<rparr>, w3))"

subsection \<open>One iteration of the main loop\<close>

text \<open>
  \<^verbatim>\<open>g_source_destroy\<close>, which the main loop applies to a source whose callback asked
  for removal.
\<close>
definition destroy :: "source \<times> addr \<Rightarrow> world \<Rightarrow> world" where
  "destroy s w =
     (if s \<in> set (sources w) then source_finalize (fst s) (w\<lparr>sources := remove1 s (sources w)\<rparr>)
      else w)"

text \<open>
  A source found ready in an iteration, with the conditions found on its channel or the
  status of its child.
\<close>
type_synonym ready = "(source \<times> addr) \<times> 32 word"

text \<open>
  The main loop dispatches the sources found ready one after the other. A source
  destroyed in the meantime is skipped. An I/O watch is destroyed when its callback
  returns false, a child watch once its callback has run.
\<close>
fun dispatch1 :: "env \<Rightarrow> ready \<Rightarrow> world \<Rightarrow> world option" where
  "dispatch1 e ((IOWatch c m, p), v) w =
     (if (IOWatch c m, p) \<in> set (sources w)
      then (case read_channel e c v p w of
              None \<Rightarrow> None
            | Some (keep, w') \<Rightarrow> Some (if keep then w' else destroy (IOWatch c m, p) w'))
      else Some w)"
| "dispatch1 e ((ChildWatch cpid, p), v) w =
     (if (ChildWatch cpid, p) \<in> set (sources w)
      then Some (destroy (ChildWatch cpid, p) (proc_exited e cpid v p w))
      else Some w)"

fun dispatch :: "env \<Rightarrow> ready list \<Rightarrow> world \<Rightarrow> world option" where
  "dispatch e [] w = Some w"
| "dispatch e (r # rs) w =
     (case dispatch1 e r w of None \<Rightarrow> None | Some w' \<Rightarrow> dispatch e rs w')"

subsection \<open>Notions used by the statements\<close>

text \<open>The exit callbacks of a handle in a trace: one per completed clean-up.\<close>
fun is_exit :: "addr \<Rightarrow> event \<Rightarrow> bool" where
  "is_exit p (Exited q status) = (q = p)"
| "is_exit p ev = False"

definition exits :: "addr \<Rightarrow> world \<Rightarrow> nat" where
  "exits p w = length (filter (is_exit p) (trace w))"

text \<open>The sources registered with a handle as their user data.\<close>
definition sources_of :: "addr \<Rightarrow> world \<Rightarrow> (source \<times> addr) list" where
  "sources_of p w = filter (\<lambda>s. snd s = p) (sources w)"

text \<open>The bytes the \<open>n\<close>-th read call delivers when \<^verbatim>\<open>BUFSIZ\<close> bytes are asked for.\<close>
definition chunk :: "env \<Rightarrow> nat \<Rightarrow> byte list" where
  "chunk e n = take (BUFSIZ e) (o_data (reads e n))"

text \<open>
  What one round of the loop of \<^verbatim>\<open>read_channel\<close> is expected to add to the trace when
  it makes the \<open>n\<close>-th read call: the read, and the chunk handed to the sink if the
  status is normal and the chunk is not empty.
\<close>
definition round_events :: "env \<Rightarrow> chan \<Rightarrow> addr \<Rightarrow> world \<Rightarrow> nat \<Rightarrow> event list" where
  "round_events e c p w n =
     Read c (use_buffer (chans w c)) #
     (if o_status (reads e n) = G_IO_STATUS_NORMAL \<and> chunk e n \<noteq> []
      then [Output p (chunk e n) (c = cstdout (procs w p))] else [])"

text \<open>The body of the loop of \<^verbatim>\<open>read_channel\<close>, once.\<close>
definition read_round :: "env \<Rightarrow> chan \<Rightarrow> addr \<Rightarrow> world \<Rightarrow> world" where
  "read_round e c p w =
     (let r = g_io_channel_read_chars e c (BUFSIZ e) w;
          status = fst (fst r);
          chunk = fst (snd (fst r));
          w1 = snd r
      in if status = G_IO_STATUS_NORMAL \<and> length chunk > 0
         then process_output p chunk (c = cstdout (procs w1 p)) w1
         else w1)"

text \<open>
  The state in which GLib lets the buffering of a channel be switched on: a null
  encoding, and no bytes in the read buffer of an unbuffered channel.
\<close>
definition switchable :: "GIOChannel \<Rightarrow> bool" where
  "switchable ch = (encoding ch = None \<and> (\<not> use_buffer ch \<longrightarrow> read_buf ch = []))"


subsection \<open>Example environments and worlds\<close>

definition idle_process :: Process where
  "idle_process = \<lparr>pid = 0, fstdin = 0, fstdout = 0, fstderr = 0, exit_status = 0,
                    cstdout = 0, cstderr = 0\<rparr>"

definition idle_channel :: GIOChannel where
  "idle_channel = \<lparr>chan_fd = 0, encoding = None, use_buffer = False, read_buf = [],
                    ref_count = 0\<rparr>"

text \<open>A world without children, channels, sources or open descriptors.\<close>
definition idle_world :: world where
  "idle_world = \<lparr>procs = (\<lambda>p. idle_process), chans = (\<lambda>c. idle_channel), next_chan = 10,
                  sources = [], fds = {}, handles = {}, next_id = 100, tick = 0, trace = []\<rparr>"

text \<open>
  An answer of \<^verbatim>\<open>g_shell_parse_argv\<close> for the examples: a command line with an odd
  number of double quotes is rejected, any other is taken as one word.
\<close>
definition example_parse :: "string \<Rightarrow> string + string list" where
  "example_parse cmd =
     (if odd (length (filter (\<lambda>ch. ch = CHR 0x22) cmd))
      then Inl ''Text ended before matching quote was found''
      else Inr [cmd])"

text \<open>
  Example environments, one for each platform, with a \<^verbatim>\<open>BUFSIZ\<close> of 4 and the answers
  \<open>rd\<close> to the read calls. No program is found under the name \<open>nowhere\<close>, and no
  directory under \<open>Z:/missing\<close>.
\<close>
definition example_env :: "platform \<Rightarrow> (nat \<Rightarrow> outcome) \<Rightarrow> env" where
  "example_env pl rd =
     \<lparr>platform = pl, BUFSIZ = 4, g_shell_parse_argv = example_parse,
      spawn_error = (\<lambda>cwd argv envp.
         if argv = [''nowhere''] then Some ''Failed to execute child process'' else None),
      create_error = (\<lambda>cmd envp cwd.
         if cwd = Some ''Z:/missing'' then Some ''The directory name is invalid.'' else None),
      COMSPEC = ''cmd.exe'', reads = rd, stray = (\<lambda>i. 0)\<rparr>"

text \<open>The read calls all answer \<open>out\<close>.\<close>
definition always :: "outcome \<Rightarrow> nat \<Rightarrow> outcome" where
  "always out n = out"

definition normal :: "byte list \<Rightarrow> outcome" where
  "normal bs = \<lparr>o_status = G_IO_STATUS_NORMAL, o_data = bs, o_err = None, o_left = []\<rparr>"

definition eof :: outcome where
  "eof = \<lparr>o_status = G_IO_STATUS_EOF, o_data = [], o_err = None, o_left = []\<rparr>"

definition failed :: "string \<Rightarrow> int \<Rightarrow> outcome" where
  "failed msg c = \<lparr>o_status = G_IO_STATUS_ERROR, o_data = [],
                    o_err = Some \<lparr>message = msg, code = c\<rparr>, o_left = []\<rparr>"

text \<open>Six bytes arrive: the first read call fills the buffer, the second does not.\<close>
definition six_bytes :: "nat \<Rightarrow> outcome" where
  "six_bytes n = (if n = 0 then normal [1, 2, 3, 4] else if n = 1 then normal [5, 6] else eof)"

text \<open>The world after a child was spawned from the idle world, both outputs watched.\<close>
definition spawned_world :: "platform \<Rightarrow> world" where
  "spawned_world pl =
     snd (spawn (example_env pl (always eof)) 7 ''ls'' None None True True idle_world)"

text \<open>
  The steps of \<^verbatim>\<open>read_process_output\<close>, named one by one: switching to buffered mode,
  the read call selected by the option, switching back, stripping the line terminator,
  and building the result from the status. The function is their composition
  (lemma \<open>read_process_output_steps\<close>).
\<close>
definition enter_buffered :: "chan \<Rightarrow> world \<Rightarrow> world" where
  "enter_buffered c w =
     (if \<not> g_io_channel_get_buffered c w then g_io_channel_set_buffered c True w else w)"

definition manual_read ::
  "env \<Rightarrow> chan \<Rightarrow> char \<Rightarrow> nat \<Rightarrow> world \<Rightarrow> (GIOStatus \<times> buffer \<times> nat \<times> GError option) \<times> world" where
  "manual_read e c opt len0 w1 =
     (if opt = CHR ''l'' \<or> opt = CHR ''L'' then
        (let ((st, s, er), w') = g_io_channel_read_line_string e c w1
         in ((st, Ptr s, length s, er), w'))
      else if opt = CHR ''a'' then
        (let ((st, b, n, er), w') = g_io_channel_read_to_end e c w1
         in ((if st = G_IO_STATUS_EOF then G_IO_STATUS_NORMAL else st, b, n, er), w'))
      else if opt = CHR ''n'' then
        (let ((st, bs, er), w') = g_io_channel_read_chars e c len0 w1
         in ((st, Ptr bs, length bs, er), w'))
      else ((G_IO_STATUS_NORMAL, Uninitialized, len0, None), w1))"

definition leave_buffered :: "chan \<Rightarrow> world \<Rightarrow> world" where
  "leave_buffered c w2 =
     (if g_io_channel_get_buffer_condition c w2 AND G_IO_IN = 0
      then g_io_channel_set_buffered c False w2 else w2)"

definition strip_line :: "env \<Rightarrow> char \<Rightarrow> buffer \<Rightarrow> nat \<Rightarrow> nat" where
  "strip_line e opt buf len =
     (let len1 = (if opt = CHR ''l'' \<and> byte_at e buf (size_dec len) = 0x0A
                  then size_dec len else len)
      in if opt = CHR ''l'' \<and> byte_at e buf (size_dec len1) = 0x0D
         then size_dec len1 else len1)"

definition deliver ::
  "GIOStatus \<Rightarrow> buffer \<Rightarrow> nat \<Rightarrow> GError option \<Rightarrow> string option \<Rightarrow> int \<Rightarrow> fault + read_result" where
  "deliver status buf len2 err error0 code0 =
     (if status = G_IO_STATUS_EOF
      then Inr \<lparr>rbuf = NULL, rlen = len2, rerror = None, rcode = code0\<rparr>
      else if status \<noteq> G_IO_STATUS_NORMAL
      then (case err of
              None \<Rightarrow> Inl NullDereference
            | Some ge \<Rightarrow> Inr \<lparr>rbuf = NULL, rlen = len2, rerror = Some (message ge),
                              rcode = code ge\<rparr>)
      else Inr \<lparr>rbuf = buf, rlen = len2, rerror = error0, rcode = code0\<rparr>)"


text \<open>
  The invariant of an iteration, for a handle \<open>p\<close> and a number \<open>n\<close> of exit callbacks:
  either nothing has been cleaned up yet, or the one clean-up has run and no source of
  the handle is left.
\<close>
definition once :: "addr \<Rightarrow> nat \<Rightarrow> world \<Rightarrow> bool" where
  "once p n w =
     (length (sources_of p w) \<le> 3 \<and> exits p w = n \<or> sources_of p w = [] \<and> exits p w = n + 1)"

text \<open>A command line with an opening double quote that is never closed.\<close>
definition unbalanced :: string where
  "unbalanced = ''echo '' @ [CHR 0x22] @ ''hi''"




section \<open>Verification\<close>

subsection \<open>Unfolding and the example worlds\<close>

lemmas env_defs = example_env_def always_def normal_def eof_def failed_def six_bytes_def
  example_parse_def

lemmas glib_defs = g_io_channel_new_def g_io_channel_set_encoding_def
  g_io_channel_set_buffered_def g_io_channel_get_buffered_def
  g_io_channel_get_buffer_condition_def g_io_channel_unref_def g_io_add_watch_def
  g_child_watch_add_def g_source_remove_by_user_data_def channel_read_def
  g_io_channel_read_chars_def g_io_channel_read_line_string_def g_io_channel_read_to_end_def
  close_def CloseHandle_def g_spawn_close_pid_def g_spawn_async_with_pipes_def
  CreatePipe_def CreateProcessA_def open_osfhandle_def upd_proc_def upd_chan_def
  process_output_def process_exited_def G_IO_IN_def G_IO_HUP_def

lemmas world_defs = spawned_world_def spawn_def monitor_def new_channel_def idle_world_def
  idle_process_def idle_channel_def

lemma spawned_posix:
  "procs (spawned_world POSIX) 7 = \<lparr>pid = 100, fstdin = 101, fstdout = 102, fstderr = 103,
     exit_status = 0, cstdout = 10, cstderr = 11\<rparr>"
  "sources (spawned_world POSIX) = [(IOWatch 10 17, 7), (IOWatch 11 17, 7), (ChildWatch 100, 7)]"
  "tick (spawned_world POSIX) = 0"
  "fds (spawned_world POSIX) = {101, 102, 103}"
  "trace (spawned_world POSIX) = [SetBuffered 10 False, SetBuffered 11 False]"
  "chans (spawned_world POSIX) 10 = \<lparr>chan_fd = 102, encoding = None, use_buffer = False,
     read_buf = [], ref_count = 1\<rparr>"
  by (simp_all add: world_defs env_defs glib_defs Let_def)

lemma read_loop_unfold:
  "read_loop e c p w =
     (if length (chunk e (tick w)) = BUFSIZ e then read_loop e c p (read_round e c p w)
      else Some (read_round e c p w))"
  by (subst read_loop.simps)
     (simp add: read_round_def chunk_def g_io_channel_read_chars_def channel_read_def Let_def)

lemma read_round_fields:
  "tick (read_round e c p w) = tick w + 1"
  "procs (read_round e c p w) = procs w"
  "sources (read_round e c p w) = sources w"
  "fds (read_round e c p w) = fds w"
  "handles (read_round e c p w) = handles w"
  "use_buffer (chans (read_round e c p w) c') = use_buffer (chans w c')"
  "trace (read_round e c p w) = trace w @ round_events e c p w (tick w)"
  by (simp_all add: read_round_def round_events_def chunk_def g_io_channel_read_chars_def
        channel_read_def process_output_def upd_chan_def Let_def)

lemma read_loop_drains:
  "\<forall>i<j. length (chunk e (tick w + i)) = BUFSIZ e \<Longrightarrow>
   length (chunk e (tick w + j)) \<noteq> BUFSIZ e \<Longrightarrow>
   \<exists>w'. read_loop e c p w = Some w' \<and> tick w' = tick w + j + 1 \<and> procs w' = procs w
        \<and> sources w' = sources w
        \<and> trace w' = trace w @ concat (map (round_events e c p w) [tick w ..< tick w + j + 1])"
proof (induction j arbitrary: w)
  case 0
  then show ?case
    by (subst read_loop_unfold) (simp add: read_round_fields)
next
  case (Suc j)
  let ?w1 = "read_round e c p w"
  have full0: "length (chunk e (tick w)) = BUFSIZ e"
    using Suc.prems(1) by (metis add.right_neutral zero_less_Suc)
  have a: "\<forall>i<j. length (chunk e (tick ?w1 + i)) = BUFSIZ e"
  proof (intro allI impI)
    fix i assume "i < j"
    then have "length (chunk e (tick w + Suc i)) = BUFSIZ e"
      using Suc.prems(1) by (meson Suc_less_eq)
    then show "length (chunk e (tick ?w1 + i)) = BUFSIZ e"
      by (simp add: read_round_fields)
  qed
  have b: "length (chunk e (tick ?w1 + j)) \<noteq> BUFSIZ e"
    using Suc.prems(2) by (simp add: read_round_fields)
  from Suc.IH [OF a b] obtain w' where w':
    "read_loop e c p ?w1 = Some w'" "tick w' = tick ?w1 + j + 1" "procs w' = procs ?w1"
    "sources w' = sources ?w1"
    "trace w' = trace ?w1 @ concat (map (round_events e c p ?w1) [tick ?w1 ..< tick ?w1 + j + 1])"
    by blast
  have ev: "round_events e c p ?w1 = round_events e c p w"
    by (rule ext) (simp add: round_events_def read_round_fields)
  have "[tick w ..< tick w + Suc j + 1] = tick w # [tick w + 1 ..< tick w + 1 + j + 1]"
    by (simp add: upt_conv_Cons)
  moreover have "read_loop e c p w = read_loop e c p ?w1"
    by (subst read_loop_unfold) (simp add: full0)
  ultimately show ?case
    using w' ev by (simp add: read_round_fields)
qed

lemma cleanup_clears_pid: "pid (procs (cleanup_process e p status w) p) = 0"
  by (simp add: cleanup_process_def Let_def upd_proc_def process_exited_def close_def
        CloseHandle_def split: platform.split)

subsection \<open>The output monitor\<close>

text \<open>
  C4: on a readiness notification for a live handle (\<^verbatim>\<open>G_IO_IN\<close> set), \<^verbatim>\<open>read_channel\<close>
  reads chunk after chunk of at most \<^verbatim>\<open>BUFSIZ\<close> bytes and stops after the first read that
  does not fill the buffer, be it short or empty: if the reads \<open>tick w, ..., tick w + j - 1\<close>
  deliver \<^verbatim>\<open>BUFSIZ\<close> bytes and read \<open>tick w + j\<close> does not, exactly these \<open>j + 1\<close> reads are
  made. Each read that has normal status and a non-empty chunk is followed by one call of
  the sink with that chunk, tagged true if the channel is the stdout channel of the
  handle and false otherwise; nothing else reaches the sink.
\<close>
theorem read_channel_drains:
  assumes "pid (procs w p) \<noteq> 0" and "cond AND G_IO_IN \<noteq> 0"
    and "\<forall>i<j. length (chunk e (tick w + i)) = BUFSIZ e"
    and "length (chunk e (tick w + j)) \<noteq> BUFSIZ e"
  shows "\<exists>w'. read_channel e c cond p w = Some (cond AND G_IO_HUP = 0, w')
           \<and> tick w' = tick w + j + 1
           \<and> trace w' = trace w @ concat (map (round_events e c p w) [tick w ..< tick w + j + 1])
           \<and> (\<forall>n. length (chunk e n) \<le> BUFSIZ e)"
proof -
  from read_loop_drains [OF assms(3,4)] obtain w' where w':
    "read_loop e c p w = Some w'" "tick w' = tick w + j + 1" "procs w' = procs w"
    "trace w' = trace w @ concat (map (round_events e c p w) [tick w ..< tick w + j + 1])"
    by blast
  then show ?thesis
    using assms(1,2) by (simp add: read_channel_def chunk_def)
qed

theorem read_channel_drains_witness:
  "pid (procs (spawned_world POSIX) 7) \<noteq> 0 \<and> G_IO_IN AND G_IO_IN \<noteq> 0
   \<and> length (chunk (example_env POSIX six_bytes) 0) = 4
   \<and> length (chunk (example_env POSIX six_bytes) 1) \<noteq> 4
   \<and> (\<exists>w'. read_channel (example_env POSIX six_bytes) 10 G_IO_IN 7 (spawned_world POSIX)
           = Some (True, w')
      \<and> tick w' = 2
      \<and> trace w' = trace (spawned_world POSIX) @
          [Read 10 False, Output 7 [1, 2, 3, 4] True, Read 10 False, Output 7 [5, 6] True])"
proof -
  let ?e = "example_env POSIX six_bytes"
  have 1: "pid (procs (spawned_world POSIX) 7) \<noteq> 0"
    by (simp add: spawned_posix)
  have 2: "G_IO_IN AND G_IO_IN \<noteq> 0"
    by (simp add: G_IO_IN_def)
  have 3: "\<forall>i<1. length (chunk ?e (tick (spawned_world POSIX) + i)) = BUFSIZ ?e"
    by (simp add: spawned_posix chunk_def env_defs)
  have 4: "length (chunk ?e (tick (spawned_world POSIX) + 1)) \<noteq> BUFSIZ ?e"
    by (simp add: spawned_posix chunk_def env_defs)
  have 5: "[0..<Suc (Suc 0)] = [0, 1]"
    by (simp add: upt_conv_Cons)
  from read_channel_drains [OF 1 2 3 4, of 10] obtain w' where w':
    "read_channel ?e 10 G_IO_IN 7 (spawned_world POSIX) = Some (G_IO_IN AND G_IO_HUP = 0, w')"
    "tick w' = tick (spawned_world POSIX) + 1 + 1"
    "trace w' = trace (spawned_world POSIX) @
       concat (map (round_events ?e 10 7 (spawned_world POSIX))
         [tick (spawned_world POSIX) ..< tick (spawned_world POSIX) + 1 + 1])"
    by blast
  have "G_IO_IN AND G_IO_HUP = 0"
    by (simp add: G_IO_IN_def G_IO_HUP_def)
  with w' 5 have "\<exists>w'. read_channel ?e 10 G_IO_IN 7 (spawned_world POSIX) = Some (True, w')
      \<and> tick w' = 2
      \<and> trace w' = trace (spawned_world POSIX) @
          [Read 10 False, Output 7 [1, 2, 3, 4] True, Read 10 False, Output 7 [5, 6] True]"
    by (intro exI [of _ w']) (simp add: spawned_posix round_events_def chunk_def env_defs)
  with 1 2 show ?thesis
    by (simp add: chunk_def env_defs)
qed


text \<open>
  C8: when the liveness flag of the handle is already cleared (\<^verbatim>\<open>pid\<close> is 0),
  \<^verbatim>\<open>read_channel\<close> returns false at once and leaves the world as it is: no read call,
  nothing handed to the sink, no descriptor touched.
\<close>
theorem read_channel_stops_silently:
  "pid (procs w p) = 0 \<Longrightarrow> read_channel e c cond p w = Some (False, w)"
  by (simp add: read_channel_def)

theorem read_channel_stops_silently_witness:
  "pid (procs (cleanup_process (example_env POSIX six_bytes) 7 0 (spawned_world POSIX)) 7) = 0
   \<and> read_channel (example_env POSIX six_bytes) 10 G_IO_IN 7
         (cleanup_process (example_env POSIX six_bytes) 7 0 (spawned_world POSIX))
       = Some (False, cleanup_process (example_env POSIX six_bytes) 7 0 (spawned_world POSIX))"
  using read_channel_stops_silently
      [where w = "cleanup_process (example_env POSIX six_bytes) 7 0 (spawned_world POSIX)"
         and p = 7 and e = "example_env POSIX six_bytes" and c = 10 and cond = G_IO_IN]
  by (simp add: cleanup_clears_pid)

subsection \<open>Clean-up\<close>

lemma find_Some_holds: "find P xs = Some s \<Longrightarrow> P s"
  by (induction xs) (auto split: if_splits)

lemma find_remove1_filter:
  "find P xs = Some s \<Longrightarrow> filter P (remove1 s xs) = tl (filter P xs)"
proof (induction xs)
  case Nil
  then show ?case by simp
next
  case (Cons x xs)
  then show ?case by (cases "P x") (auto dest: find_Some_holds)
qed

lemma find_None_filter: "find P xs = None \<Longrightarrow> filter P xs = []"
  by (induction xs) (auto split: if_splits)

lemma filter_remove1_other: "\<not> P s \<Longrightarrow> filter P (remove1 s xs) = filter P xs"
  by (induction xs) auto

lemma source_finalize_fields:
  "sources (source_finalize s w) = sources w"
  "trace (source_finalize s w) = trace w"
  "procs (source_finalize s w) = procs w"
  by (cases s; simp add: g_io_channel_unref_def upd_chan_def)+

lemma remove_by_user_data_fields:
  "trace (g_source_remove_by_user_data p w) = trace w"
  "procs (g_source_remove_by_user_data p w) = procs w"
  "sources_of p (g_source_remove_by_user_data p w) = tl (sources_of p w)"
  "q \<noteq> p \<Longrightarrow> sources_of q (g_source_remove_by_user_data p w) = sources_of q w"
proof -
  show "trace (g_source_remove_by_user_data p w) = trace w"
    by (simp add: g_source_remove_by_user_data_def source_finalize_fields split: option.split)
  show "procs (g_source_remove_by_user_data p w) = procs w"
    by (simp add: g_source_remove_by_user_data_def source_finalize_fields split: option.split)
  show "sources_of p (g_source_remove_by_user_data p w) = tl (sources_of p w)"
    by (simp add: g_source_remove_by_user_data_def sources_of_def source_finalize_fields
          find_remove1_filter find_None_filter split: option.split)
  show "sources_of q (g_source_remove_by_user_data p w) = sources_of q w" if "q \<noteq> p"
  proof (cases "find (\<lambda>s. snd s = p) (sources w)")
    case None
    then show ?thesis by (simp add: g_source_remove_by_user_data_def)
  next
    case (Some s)
    then have "snd s \<noteq> q"
      using find_Some_holds [OF Some] that by simp
    then show ?thesis
      using Some
      by (simp add: g_source_remove_by_user_data_def sources_of_def source_finalize_fields
            filter_remove1_other)
  qed
qed


lemma exits_simps:
  "exits q (process_exited p status w) = (if q = p then exits q w + 1 else exits q w)"
  "exits q (close fd w) = exits q w"
  "exits q (CloseHandle h w) = exits q w"
  "exits q (upd_proc p f w) = exits q w"
  "exits q (g_source_remove_by_user_data p w) = exits q w"
  "exits q (g_spawn_close_pid e h w) = exits q w"
  by (simp_all add: exits_def process_exited_def close_def CloseHandle_def upd_proc_def
        remove_by_user_data_fields g_spawn_close_pid_def split: platform.split)

lemma sources_simps:
  "sources (process_exited p status w) = sources w"
  "sources (close fd w) = sources w"
  "sources (CloseHandle h w) = sources w"
  "sources (upd_proc p f w) = sources w"
  "sources (g_spawn_close_pid e h w) = sources w"
  by (simp_all add: process_exited_def close_def CloseHandle_def upd_proc_def
        g_spawn_close_pid_def split: platform.split)

lemma cleanup_exits:
  "exits q (cleanup_process e p status w) = (if q = p then exits q w + 1 else exits q w)"
  by (simp add: cleanup_process_def Let_def exits_simps split: platform.split)

lemma sources_of_simps:
  "sources_of q (process_exited p status w) = sources_of q w"
  "sources_of q (close fd w) = sources_of q w"
  "sources_of q (CloseHandle h w) = sources_of q w"
  "sources_of q (upd_proc p f w) = sources_of q w"
  "sources_of q (g_spawn_close_pid e h w) = sources_of q w"
  by (simp_all add: sources_of_def sources_simps)

lemma cleanup_sources_of:
  "sources_of q (cleanup_process e p status w) =
     (if q = p then tl (tl (tl (sources_of p w))) else sources_of q w)"
  by (simp add: cleanup_process_def Let_def sources_of_simps remove_by_user_data_fields
        split: platform.split)

lemma cleanup_removes_sources:
  assumes "length (sources_of p w) \<le> 3"
  shows "sources_of p (cleanup_process e p status w) = []"
proof -
  have "tl (tl (tl (sources_of p w))) = drop 3 (sources_of p w)"
    by (simp add: numeral_3_eq_3 drop_Suc)
  with assms show ?thesis
    by (simp add: cleanup_sources_of)
qed

lemma loop_body:
  "(let r = g_io_channel_read_chars e c (BUFSIZ e) w;
        status = fst (fst r);
        ch = fst (snd (fst r));
        w1 = snd r;
        w2 = (if status = G_IO_STATUS_NORMAL \<and> length ch > 0
              then process_output p ch (c = cstdout (procs w1 p)) w1
              else w1)
    in if length ch = BUFSIZ e then f w2 else Some w2) =
   (if length (chunk e (tick w)) = BUFSIZ e then f (read_round e c p w)
    else Some (read_round e c p w))"
  by (simp add: read_round_def chunk_def g_io_channel_read_chars_def channel_read_def Let_def)

text \<open>Facts about the runs of the read loop that end.\<close>
lemma read_round_exits: "exits q (read_round e c p w) = exits q w"
  by (simp add: exits_def read_round_fields round_events_def)

lemma read_loop_keeps:
  assumes "read_loop e c p w = Some w'"
  shows "sources w' = sources w \<and> exits q w' = exits q w \<and> procs w' = procs w"
  using assms
proof (induction e c p w w' rule: read_loop.raw_induct [rotated 1, consumes 1])
  case (1 loop e c p w w')
  have body: "(if length (chunk e (tick w)) = BUFSIZ e then loop e c p (read_round e c p w)
               else Some (read_round e c p w)) = Some w'"
    using "1.hyps" by (simp only: loop_body)
  show ?case
  proof (cases "length (chunk e (tick w)) = BUFSIZ e")
    case True
    with body have "loop e c p (read_round e c p w) = Some w'"
      by simp
    from "1.IH" [OF this] show ?thesis
      by (simp add: read_round_fields read_round_exits)
  next
    case False
    with body have "w' = read_round e c p w"
      by simp
    then show ?thesis
      by (simp add: read_round_fields read_round_exits)
  qed
qed

lemma read_channel_keeps:
  "read_channel e c cond p w = Some (keep, w') \<Longrightarrow>
     sources w' = sources w \<and> exits q w' = exits q w"
  by (auto simp: read_channel_def split: if_splits option.splits dest: read_loop_keeps)

lemma destroy_fields:
  "trace (destroy s w) = trace w"
  "length (sources_of p (destroy s w)) \<le> length (sources_of p w)"
  "snd s \<noteq> p \<Longrightarrow> sources_of p (destroy s w) = sources_of p w"
proof -
  show "trace (destroy s w) = trace w"
    by (simp add: destroy_def source_finalize_fields)
  have "length (filter P (remove1 s xs)) \<le> length (filter P xs)" for P and xs :: "(source \<times> addr) list"
    by (induction xs) auto
  then show "length (sources_of p (destroy s w)) \<le> length (sources_of p w)"
    by (simp add: destroy_def sources_of_def source_finalize_fields)
  show "sources_of p (destroy s w) = sources_of p w" if "snd s \<noteq> p"
    using that by (simp add: destroy_def sources_of_def source_finalize_fields filter_remove1_other)
qed

lemma exits_destroy: "exits q (destroy s w) = exits q w"
  by (simp add: exits_def destroy_fields)

lemma once_keep:
  assumes "once p n w" and "length (sources_of p w') \<le> length (sources_of p w)"
    and "exits p w' = exits p w"
  shows "once p n w'"
  using assms by (auto simp: once_def)

lemma dispatch1_once:
  assumes "dispatch1 e r w = Some w'" and "once p n w"
  shows "once p n w'"
proof -
  obtain src q v where r: "r = ((src, q), v)"
    by (metis surj_pair)
  show ?thesis
  proof (cases src)
    case (IOWatch c m)
    show ?thesis
    proof (cases "(IOWatch c m, q) \<in> set (sources w)")
      case False
      with assms r IOWatch show ?thesis by simp
    next
      case True
      with assms(1) r IOWatch obtain keep w1 where
        rc: "read_channel e c v q w = Some (keep, w1)"
        and w': "w' = (if keep then w1 else destroy (IOWatch c m, q) w1)"
        by (auto split: option.splits)
      from read_channel_keeps [OF rc, of p] have k: "sources w1 = sources w" "exits p w1 = exits p w"
        by simp_all
      then have "sources_of p w1 = sources_of p w"
        by (simp add: sources_of_def)
      with k w' destroy_fields(2) [of p "(IOWatch c m, q)" w1] show ?thesis
        by (intro once_keep [OF assms(2)]) (auto simp: exits_destroy)
    qed
  next
    case (ChildWatch cpid)
    show ?thesis
    proof (cases "(ChildWatch cpid, q) \<in> set (sources w)")
      case False
      with assms r ChildWatch show ?thesis by simp
    next
      case True
      with assms(1) r ChildWatch have
        w': "w' = destroy (ChildWatch cpid, q) (cleanup_process e q v w)"
        by (simp add: proc_exited_def)
      show ?thesis
      proof (cases "q = p")
        case False
        then show ?thesis
          using w' by (intro once_keep [OF assms(2)])
            (simp_all add: destroy_fields exits_destroy cleanup_sources_of cleanup_exits)
      next
        case qp: True
        from True qp have "sources_of p w \<noteq> []"
          by (force simp: sources_of_def filter_empty_conv)
        with assms(2) have le: "length (sources_of p w) \<le> 3" and n: "exits p w = n"
          by (auto simp: once_def)
        have "sources_of p (cleanup_process e p v w) = []"
          by (rule cleanup_removes_sources [OF le])
        with destroy_fields(2) [of p "(ChildWatch cpid, q)" "cleanup_process e p v w"]
        have "sources_of p w' = []"
          using w' qp by simp
        moreover have "exits p w' = n + 1"
          using w' qp n by (simp add: exits_destroy cleanup_exits)
        ultimately show ?thesis
          by (simp add: once_def)
      qed
    qed
  qed
qed

lemma dispatch_once:
  "dispatch e rs w = Some w' \<Longrightarrow> once p n w \<Longrightarrow> once p n w'"
proof (induction rs arbitrary: w)
  case Nil
  then show ?case by simp
next
  case (Cons r rs)
  then obtain w1 where "dispatch1 e r w = Some w1" "dispatch e rs w1 = Some w'"
    by (auto split: option.splits)
  with Cons show ?case
    by (blast intro: dispatch1_once)
qed

lemma dispatch_skips:
  "sources_of p w = [] \<Longrightarrow> \<forall>r\<in>set rs. snd (fst r) = p \<Longrightarrow> dispatch e rs w = Some w"
proof (induction rs)
  case Nil
  then show ?case by simp
next
  case (Cons r rs)
  obtain src v where r: "r = ((src, p), v)"
    using Cons.prems(2) by (metis list.set_intros(1) prod.collapse)
  have "(src, p) \<notin> set (sources w)"
    using Cons.prems(1) by (auto simp: sources_of_def filter_empty_conv)
  then have "dispatch1 e r w = Some w"
    using r by (cases src) simp_all
  with Cons show ?case by simp
qed


lemma example_iteration:
  "\<exists>w'. dispatch (example_env POSIX (always eof))
          [((IOWatch 10 17, 7), 17), ((ChildWatch 100, 7), 0), ((IOWatch 11 17, 7), 17)]
          (spawned_world POSIX) = Some w'"
  by (simp add: world_defs env_defs glib_defs read_channel_def read_loop_unfold read_round_def
        chunk_def proc_exited_def cleanup_process_def destroy_def Let_def)


text \<open>
  C1, as the code has it: \<^verbatim>\<open>cleanup_process\<close> does not test the liveness flag, it runs
  its body on every call. What keeps the body from running twice is that it removes the
  sources of the handle. For a handle with at most three registered sources (\<^verbatim>\<open>spawn\<close>
  registers no more), one iteration of the main loop completes the body at most once,
  whichever sources are ready in it and in whichever order; \<^verbatim>\<open>wait_process\<close> and the
  child-watch callback each complete it exactly once; and after either of them the
  callbacks of that handle still pending in the iteration are skipped.
\<close>
theorem cleanup_once_per_iteration:
  assumes "length (sources_of p w) \<le> 3"
  shows "(dispatch e rs w = Some w' \<longrightarrow> exits p w' \<le> exits p w + 1)
       \<and> exits p (wait_process e p raw w) = exits p w + 1
       \<and> exits p (proc_exited e cpid status p w) = exits p w + 1
       \<and> ((\<forall>r\<in>set ps. snd (fst r) = p) \<longrightarrow>
            dispatch e ps (wait_process e p raw w) = Some (wait_process e p raw w)
          \<and> dispatch e ps (proc_exited e cpid status p w) = Some (proc_exited e cpid status p w))"
proof (intro conjI impI)
  assume "dispatch e rs w = Some w'"
  moreover have "once p (exits p w) w"
    using assms by (simp add: once_def)
  ultimately have "once p (exits p w) w'"
    by (rule dispatch_once)
  then show "exits p w' \<le> exits p w + 1"
    by (auto simp: once_def)
next
  show "exits p (wait_process e p raw w) = exits p w + 1"
    by (simp add: wait_process_def cleanup_exits)
  show "exits p (proc_exited e cpid status p w) = exits p w + 1"
    by (simp add: proc_exited_def cleanup_exits)
next
  assume ps: "\<forall>r\<in>set ps. snd (fst r) = p"
  have "sources_of p (wait_process e p raw w) = []"
    using assms by (simp add: wait_process_def Let_def cleanup_removes_sources)
  then show "dispatch e ps (wait_process e p raw w) = Some (wait_process e p raw w)"
    using ps by (rule dispatch_skips)
  have "sources_of p (proc_exited e cpid status p w) = []"
    using assms by (simp add: proc_exited_def cleanup_removes_sources)
  then show "dispatch e ps (proc_exited e cpid status p w) = Some (proc_exited e cpid status p w)"
    using ps by (rule dispatch_skips)
qed

theorem cleanup_once_per_iteration_witness:
  "length (sources_of 7 (spawned_world POSIX)) \<le> 3
   \<and> (\<exists>w'. dispatch (example_env POSIX (always eof))
          [((IOWatch 10 17, 7), 17), ((ChildWatch 100, 7), 0), ((IOWatch 11 17, 7), 17)]
          (spawned_world POSIX) = Some w'
        \<and> exits 7 w' \<le> exits 7 (spawned_world POSIX) + 1)
   \<and> dispatch (example_env POSIX (always eof))
        [((ChildWatch 100, 7), 0), ((IOWatch 10 17, 7), 17)]
        (wait_process (example_env POSIX (always eof)) 7 0 (spawned_world POSIX))
      = Some (wait_process (example_env POSIX (always eof)) 7 0 (spawned_world POSIX))"
proof -
  let ?e = "example_env POSIX (always eof)"
  let ?rs = "[((IOWatch 10 17, 7), 17), ((ChildWatch 100, 7), 0), ((IOWatch 11 17, 7), 17)]"
  let ?ps = "[((ChildWatch 100, 7), 0), ((IOWatch 10 17, 7), 17)]"
  have len: "length (sources_of 7 (spawned_world POSIX)) \<le> 3"
    by (simp add: sources_of_def spawned_posix)
  obtain w' where w': "dispatch ?e ?rs (spawned_world POSIX) = Some w'"
    using example_iteration by blast
  have ps: "\<forall>r\<in>set ?ps. snd (fst r) = (7::nat)"
    by simp
  from cleanup_once_per_iteration [OF len, of ?e ?rs w' 0 100 0 ?ps] w' ps
  have "exits 7 w' \<le> exits 7 (spawned_world POSIX) + 1"
    and "dispatch ?e ?ps (wait_process ?e 7 0 (spawned_world POSIX))
          = Some (wait_process ?e 7 0 (spawned_world POSIX))"
    by blast+
  with len w' show ?thesis
    by blast
qed

text \<open>
  The claim C1 as stated fails: a second call of the clean-up, here \<^verbatim>\<open>wait_process\<close>
  after the child watch has fired and cleared the liveness flag, closes the three
  descriptors again and calls the exit callback again.
\<close>
theorem cleanup_process_runs_again:
  "\<not> is_process_running 7
       (proc_exited (example_env POSIX (always eof)) 100 0 7 (spawned_world POSIX))
   \<and> trace (wait_process (example_env POSIX (always eof)) 7 0
              (proc_exited (example_env POSIX (always eof)) 100 0 7 (spawned_world POSIX)))
     = trace (proc_exited (example_env POSIX (always eof)) 100 0 7 (spawned_world POSIX))
         @ [Closed 101, Closed 102, Closed 103, Exited 7 0]"
  by (simp add: is_process_running_def wait_process_def proc_exited_def cleanup_process_def
        world_defs env_defs glib_defs WIFEXITED_def WEXITSTATUS_def Let_def)

subsection \<open>The exit status\<close>

lemma proc_exited_stores_status:
  "get_process_exit_status p (proc_exited e cpid status p w) = status"
  by (simp add: get_process_exit_status_def proc_exited_def cleanup_process_def Let_def
        upd_proc_def process_exited_def)

lemma wait_process_stores_normalized:
  "get_process_exit_status p (wait_process e p raw w)
     = (case platform e of
          POSIX \<Rightarrow> (if WIFEXITED raw then WEXITSTATUS raw else 1)
        | WIN32 \<Rightarrow> raw)"
  by (simp add: get_process_exit_status_def wait_process_def cleanup_process_def Let_def
        upd_proc_def process_exited_def)

text \<open>
  C3, at a failing input: a child that exits with code 3 has the wait status \<open>0x300\<close>.
  The child-watch callback stores the wait status and hands it to the exit callback as
  it is, where \<^verbatim>\<open>wait_process\<close> stores the exit code 3; for a child killed by signal 9
  it stores 9, where \<^verbatim>\<open>wait_process\<close> stores the sentinel 1.
\<close>
theorem child_watch_status_is_raw:
  "WIFEXITED 0x300 \<and> WEXITSTATUS 0x300 = 3
   \<and> get_process_exit_status 7
        (proc_exited (example_env POSIX (always eof)) 100 0x300 7 (spawned_world POSIX)) = 0x300
   \<and> last (trace (proc_exited (example_env POSIX (always eof)) 100 0x300 7
                    (spawned_world POSIX))) = Exited 7 0x300
   \<and> get_process_exit_status 7
        (wait_process (example_env POSIX (always eof)) 7 0x300 (spawned_world POSIX)) = 3
   \<and> \<not> WIFEXITED 9
   \<and> get_process_exit_status 7
        (proc_exited (example_env POSIX (always eof)) 100 9 7 (spawned_world POSIX)) = 9
   \<and> get_process_exit_status 7
        (wait_process (example_env POSIX (always eof)) 7 9 (spawned_world POSIX)) = 1"
  by (simp add: get_process_exit_status_def wait_process_def proc_exited_def
        cleanup_process_def world_defs env_defs glib_defs WIFEXITED_def WEXITSTATUS_def Let_def)

subsection \<open>Spawning\<close>

text \<open>
  C2, at a failing input: on Windows, when \<^verbatim>\<open>CreateProcessA\<close> fails, \<^verbatim>\<open>spawn\<close> returns
  false with the message while the six pipe handles it created stay open, nothing having
  been closed, and \<open>fstdin\<close> of the handle holds one of them. On POSIX a failed
  \<^verbatim>\<open>g_spawn_async_with_pipes\<close> leaves the world as it was.
\<close>
theorem spawn_failure_leaks_on_windows:
  "fst (spawn (example_env WIN32 (always eof)) 7 ''ls'' (Some ''Z:/missing'') None True True
          idle_world) = Inl ''The directory name is invalid.''
   \<and> handles (snd (spawn (example_env WIN32 (always eof)) 7 ''ls'' (Some ''Z:/missing'') None
          True True idle_world)) = {100, 101, 102, 103, 104, 105}
   \<and> fstdin (procs (snd (spawn (example_env WIN32 (always eof)) 7 ''ls'' (Some ''Z:/missing'')
          None True True idle_world)) 7) = 101
   \<and> trace (snd (spawn (example_env WIN32 (always eof)) 7 ''ls'' (Some ''Z:/missing'') None
          True True idle_world)) = []
   \<and> spawn (example_env POSIX (always eof)) 7 ''nowhere'' None None True True idle_world
       = (Inl ''Failed to execute child process'', idle_world)"
  by (simp add: world_defs env_defs glib_defs Let_def) blast


lemma monitor_env: "monitor (e\<lparr>g_shell_parse_argv := f\<rparr>) p a b w = monitor e p a b w"
  by (simp add: monitor_def new_channel_def)

lemma CreateProcessA_env:
  "CreateProcessA (e\<lparr>g_shell_parse_argv := f\<rparr>) cmd envp cwd w = CreateProcessA e cmd envp cwd w"
  by (simp add: CreateProcessA_def)

text \<open>
  C7, as the code has it: on POSIX, a command line that \<^verbatim>\<open>g_shell_parse_argv\<close> rejects
  makes \<^verbatim>\<open>spawn\<close> return false with the message of the parser, and the world is
  unchanged: no pipe, no child, no channel, no source. On Windows \<^verbatim>\<open>spawn\<close> does not
  tokenize the command line: what it does is the same whatever the parser would answer.
\<close>
theorem spawn_rejects_malformed_command:
  assumes "g_shell_parse_argv e cmd = Inl msg"
  shows "(platform e = POSIX \<longrightarrow> spawn e p cmd cwd envi mo me w = (Inl msg, w))
       \<and> (platform e = WIN32 \<longrightarrow>
            spawn e p cmd cwd envi mo me w
              = spawn (e\<lparr>g_shell_parse_argv := f\<rparr>) p cmd cwd envi mo me w)"
proof (intro conjI impI)
  assume "platform e = POSIX"
  with assms show "spawn e p cmd cwd envi mo me w = (Inl msg, w)"
    by (simp add: spawn_def)
next
  assume "platform e = WIN32"
  then show "spawn e p cmd cwd envi mo me w
               = spawn (e\<lparr>g_shell_parse_argv := f\<rparr>) p cmd cwd envi mo me w"
    unfolding spawn_def monitor_env CreateProcessA_env by simp
qed

theorem spawn_rejects_malformed_command_witness:
  "g_shell_parse_argv (example_env POSIX (always eof)) unbalanced
     = Inl ''Text ended before matching quote was found''
   \<and> spawn (example_env POSIX (always eof)) 7 unbalanced None None True True idle_world
     = (Inl ''Text ended before matching quote was found'', idle_world)"
proof -
  have "g_shell_parse_argv (example_env POSIX (always eof)) unbalanced
          = Inl ''Text ended before matching quote was found''"
    by (simp add: env_defs unbalanced_def)
  from spawn_rejects_malformed_command [OF this, of 7 None None True True idle_world] this
  show ?thesis
    by (simp add: example_env_def)
qed

text \<open>
  The claim C7 as stated fails on Windows: for a command line with an unbalanced quote
  \<^verbatim>\<open>spawn\<close> returns true, having created the pipes and the child.
\<close>
theorem spawn_malformed_on_windows:
  "g_shell_parse_argv (example_env WIN32 (always eof)) unbalanced
     = Inl ''Text ended before matching quote was found''
   \<and> fst (spawn (example_env WIN32 (always eof)) 7 unbalanced None None False False idle_world)
     = Inr ()
   \<and> pid (procs (snd (spawn (example_env WIN32 (always eof)) 7 unbalanced None None False False
        idle_world)) 7) = 106
   \<and> fds (snd (spawn (example_env WIN32 (always eof)) 7 unbalanced None None False False
        idle_world)) = {108, 109}"
  by (simp add: world_defs env_defs glib_defs unbalanced_def Let_def insert_commute)


subsection \<open>The steps of a manual read\<close>

lemma deliver_pair:
  "(if status = G_IO_STATUS_EOF
    then (Inr \<lparr>rbuf = NULL, rlen = len2, rerror = None, rcode = code0\<rparr>, w3)
    else if status \<noteq> G_IO_STATUS_NORMAL
    then (case err of
            None \<Rightarrow> (Inl NullDereference, w3)
          | Some ge \<Rightarrow>
              (Inr \<lparr>rbuf = NULL, rlen = len2, rerror = Some (message ge),
                    rcode = code ge\<rparr>, w3))
    else (Inr \<lparr>rbuf = buf, rlen = len2, rerror = error0, rcode = code0\<rparr>, w3))
   = (deliver status buf len2 err error0 code0, w3)"
  by (simp add: deliver_def split: option.split)

lemma read_process_output_steps:
  "read_process_output e p opt len0 error0 code0 w =
     (let c = cstdout (procs w p);
          r = manual_read e c opt len0 (enter_buffered c w);
          status = fst (fst r); buf = fst (snd (fst r)); len = fst (snd (snd (fst r)));
          err = snd (snd (snd (fst r)))
      in (deliver status buf (strip_line e opt buf len) err error0 code0,
          leave_buffered c (snd r)))"
  unfolding read_process_output_def deliver_pair
  unfolding enter_buffered_def manual_read_def leave_buffered_def strip_line_def Let_def split_def
  by (rule refl)


lemma manual_read_world:
  "opt \<in> {CHR ''l'', CHR ''L'', CHR ''a'', CHR ''n''} \<Longrightarrow>
     snd (manual_read e c opt len0 w) = snd (channel_read e c w)"
  by (auto simp: manual_read_def g_io_channel_read_line_string_def g_io_channel_read_to_end_def
        g_io_channel_read_chars_def Let_def split_def)

lemma manual_read_other:
  "opt \<notin> {CHR ''l'', CHR ''L'', CHR ''a'', CHR ''n''} \<Longrightarrow>
     manual_read e c opt len0 w = ((G_IO_STATUS_NORMAL, Uninitialized, len0, None), w)"
  by (simp add: manual_read_def)

lemma enter_buffered_sources:
  "enter_buffered c (w\<lparr>sources := s\<rparr>) = (enter_buffered c w)\<lparr>sources := s\<rparr>"
  by (simp add: enter_buffered_def g_io_channel_get_buffered_def g_io_channel_set_buffered_def
        upd_chan_def)

lemma leave_buffered_sources:
  "leave_buffered c (w\<lparr>sources := s\<rparr>) = (leave_buffered c w)\<lparr>sources := s\<rparr>"
  by (simp add: leave_buffered_def g_io_channel_get_buffer_condition_def
        g_io_channel_set_buffered_def upd_chan_def)

lemma channel_read_sources:
  "channel_read e c (w\<lparr>sources := s\<rparr>)
     = (fst (channel_read e c w), (snd (channel_read e c w))\<lparr>sources := s\<rparr>)"
  by (simp add: channel_read_def upd_chan_def Let_def)

lemma manual_read_sources:
  "manual_read e c opt len0 (w\<lparr>sources := s\<rparr>)
     = (fst (manual_read e c opt len0 w), (snd (manual_read e c opt len0 w))\<lparr>sources := s\<rparr>)"
  by (simp add: manual_read_def g_io_channel_read_line_string_def g_io_channel_read_to_end_def
        g_io_channel_read_chars_def channel_read_sources Let_def split_def)

lemma read_process_output_sources:
  "read_process_output e p opt len0 error0 code0 (w\<lparr>sources := s\<rparr>) =
     (fst (read_process_output e p opt len0 error0 code0 w),
      (snd (read_process_output e p opt len0 error0 code0 w))\<lparr>sources := s\<rparr>)"
  by (simp add: read_process_output_steps enter_buffered_sources manual_read_sources
        leave_buffered_sources Let_def)


subsection \<open>Channels and watches after a successful spawn\<close>

lemma new_channel_result:
  "new_channel e fd p watch w =
     (next_chan w,
      w\<lparr>chans := (chans w)(next_chan w := \<lparr>chan_fd = fd, encoding = None, use_buffer = False,
                   read_buf = [], ref_count = 1\<rparr>),
        next_chan := next_chan w + 1,
        sources := sources w @ (if watch then [(IOWatch (next_chan w) (G_IO_IN OR G_IO_HUP), p)] else []),
        trace := trace w @ [SetBuffered (next_chan w) False]\<rparr>)"
  by (simp add: new_channel_def g_io_channel_new_def g_io_channel_set_encoding_def
        g_io_channel_set_buffered_def g_io_channel_unref_def g_io_add_watch_def upd_chan_def
        Let_def)

lemma monitor_result:
  "monitor e p mo me w =
     w\<lparr>procs := (procs w)(p := (procs w p)\<lparr>cstdout := next_chan w, cstderr := next_chan w + 1\<rparr>),
       chans := (chans w)
         (next_chan w := \<lparr>chan_fd = fstdout (procs w p), encoding = None, use_buffer = False,
                           read_buf = [], ref_count = 1\<rparr>,
          next_chan w + 1 := \<lparr>chan_fd = fstderr (procs w p), encoding = None,
                               use_buffer = False, read_buf = [], ref_count = 1\<rparr>),
       next_chan := next_chan w + 2,
       sources := sources w
         @ (if mo then [(IOWatch (next_chan w) (G_IO_IN OR G_IO_HUP), p)] else [])
         @ (if me then [(IOWatch (next_chan w + 1) (G_IO_IN OR G_IO_HUP), p)] else [])
         @ [(ChildWatch (pid (procs w p)), p)],
       trace := trace w @ [SetBuffered (next_chan w) False, SetBuffered (next_chan w + 1) False]\<rparr>"
  by (simp add: monitor_def new_channel_result upd_proc_def g_child_watch_add_def Let_def)

lemma spawn_success:
  assumes "fst (spawn e p cmd cwd envi mo me w) = Inr ()"
  shows "\<exists>wp. (\<forall>a b. snd (spawn e p cmd cwd envi a b w) = monitor e p a b wp)
            \<and> sources wp = sources w \<and> next_chan wp = next_chan w"
proof (cases "platform e")
  case POSIX
  with assms obtain argv where argv: "g_shell_parse_argv e cmd = Inr argv"
    by (auto simp: spawn_def split: sum.splits)
  with assms POSIX have ok: "spawn_error e cwd argv envi = None"
    by (auto simp: spawn_def g_spawn_async_with_pipes_def split: option.splits)
  show ?thesis
    using POSIX argv ok
    by (simp add: spawn_def g_spawn_async_with_pipes_def Let_def upd_proc_def)
       (rule exI, rule conjI, rule allI, rule allI, rule refl, simp)
next
  case WIN32
  let ?cmd = "COMSPEC e @ '' /c '' @ cmd"
  let ?envp = "map_option (\<lambda>es. concat (map (\<lambda>s. s @ [CHR 0x00]) es) @ [CHR 0x00]) envi"
  from assms WIN32 have ok: "create_error e ?cmd ?envp cwd = None"
    by (auto simp: spawn_def CreateProcessA_def CreatePipe_def Let_def split: option.splits)
  show ?thesis
    using WIN32 ok
    by (simp add: spawn_def CreateProcessA_def CreatePipe_def open_osfhandle_def CloseHandle_def
          Let_def upd_proc_def)
       (rule exI, rule conjI, rule allI, rule allI, rule refl, simp)
qed



lemma spawn_registers_at_most_three:
  assumes "fst (spawn e p cmd cwd envi mo me w) = Inr ()" and "sources_of p w = []"
  shows "length (sources_of p (snd (spawn e p cmd cwd envi mo me w))) \<le> 3"
proof -
  from spawn_success [OF assms(1)] obtain wp where
    wp: "\<And>a b. snd (spawn e p cmd cwd envi a b w) = monitor e p a b wp"
    and s: "sources wp = sources w"
    by blast
  have "filter (\<lambda>s. snd s = p) (sources w) = []"
    using assms(2) by (simp add: sources_of_def)
  then show ?thesis
    by (simp add: wp monitor_result s sources_of_def)
qed

text \<open>
  C10: after every successful \<^verbatim>\<open>spawn\<close>, \<open>cstdout\<close> and \<open>cstderr\<close> of the handle are two
  new channels on \<open>fstdout\<close> and \<open>fstderr\<close>, unbuffered, with null encoding and one
  reference, whatever the monitor flags. The flags decide only which I/O watches are
  among the registered sources: the world reached with the flags differs from the world
  reached without them in its sources only, and a manual read gives the same result in
  both.
\<close>
theorem spawn_creates_both_channels:
  assumes "fst (spawn e p cmd cwd envi mo me w) = Inr ()"
  shows "cstdout (procs (snd (spawn e p cmd cwd envi mo me w)) p) = next_chan w
       \<and> cstderr (procs (snd (spawn e p cmd cwd envi mo me w)) p) = next_chan w + 1
       \<and> chans (snd (spawn e p cmd cwd envi mo me w)) (next_chan w)
           = \<lparr>chan_fd = fstdout (procs (snd (spawn e p cmd cwd envi mo me w)) p),
              encoding = None, use_buffer = False, read_buf = [], ref_count = 1\<rparr>
       \<and> chans (snd (spawn e p cmd cwd envi mo me w)) (next_chan w + 1)
           = \<lparr>chan_fd = fstderr (procs (snd (spawn e p cmd cwd envi mo me w)) p),
              encoding = None, use_buffer = False, read_buf = [], ref_count = 1\<rparr>
       \<and> sources (snd (spawn e p cmd cwd envi mo me w))
           = sources w
             @ (if mo then [(IOWatch (next_chan w) (G_IO_IN OR G_IO_HUP), p)] else [])
             @ (if me then [(IOWatch (next_chan w + 1) (G_IO_IN OR G_IO_HUP), p)] else [])
             @ [(ChildWatch (pid (procs (snd (spawn e p cmd cwd envi mo me w)) p)), p)]
       \<and> (snd (spawn e p cmd cwd envi False False w))
             \<lparr>sources := sources (snd (spawn e p cmd cwd envi mo me w))\<rparr>
           = snd (spawn e p cmd cwd envi mo me w)
       \<and> fst (read_process_output e p opt len0 error0 code0 (snd (spawn e p cmd cwd envi mo me w)))
           = fst (read_process_output e p opt len0 error0 code0
                    (snd (spawn e p cmd cwd envi False False w)))"
proof -
  from spawn_success [OF assms] obtain wp where
    wp: "\<And>a b. snd (spawn e p cmd cwd envi a b w) = monitor e p a b wp"
    and s: "sources wp = sources w" and n: "next_chan wp = next_chan w"
    by blast
  let ?w' = "monitor e p mo me wp"
  have flags: "(monitor e p False False wp)\<lparr>sources := sources ?w'\<rparr> = ?w'"
    by (simp add: monitor_result)
  have "fst (read_process_output e p opt len0 error0 code0
               ((monitor e p False False wp)\<lparr>sources := sources ?w'\<rparr>))
          = fst (read_process_output e p opt len0 error0 code0 (monitor e p False False wp))"
    by (simp only: read_process_output_sources fst_conv)
  then have reads: "fst (read_process_output e p opt len0 error0 code0 ?w')
          = fst (read_process_output e p opt len0 error0 code0 (monitor e p False False wp))"
    by (simp only: flags)
  have 1: "cstdout (procs ?w' p) = next_chan w" "cstderr (procs ?w' p) = next_chan w + 1"
    by (simp_all add: monitor_result n)
  have 2: "chans ?w' (next_chan w) = \<lparr>chan_fd = fstdout (procs ?w' p), encoding = None,
             use_buffer = False, read_buf = [], ref_count = 1\<rparr>"
    by (simp add: monitor_result n)
  have 3: "chans ?w' (next_chan w + 1) = \<lparr>chan_fd = fstderr (procs ?w' p), encoding = None,
             use_buffer = False, read_buf = [], ref_count = 1\<rparr>"
    by (simp add: monitor_result n)
  have 4: "sources ?w' = sources w
             @ (if mo then [(IOWatch (next_chan w) (G_IO_IN OR G_IO_HUP), p)] else [])
             @ (if me then [(IOWatch (next_chan w + 1) (G_IO_IN OR G_IO_HUP), p)] else [])
             @ [(ChildWatch (pid (procs ?w' p)), p)]"
    by (simp add: monitor_result n s)
  show ?thesis
    unfolding wp by (intro conjI) (rule 1 2 3 4 flags reads)+
qed

theorem spawn_creates_both_channels_witness:
  "fst (spawn (example_env POSIX (always eof)) 7 ''ls'' None None True False idle_world) = Inr ()
   \<and> cstdout (procs (snd (spawn (example_env POSIX (always eof)) 7 ''ls'' None None True False
        idle_world)) 7) = next_chan idle_world
   \<and> fst (read_process_output (example_env POSIX (always eof)) 7 (CHR ''l'') 0 None 0
          (snd (spawn (example_env POSIX (always eof)) 7 ''ls'' None None True False idle_world)))
       = fst (read_process_output (example_env POSIX (always eof)) 7 (CHR ''l'') 0 None 0
          (snd (spawn (example_env POSIX (always eof)) 7 ''ls'' None None False False
             idle_world)))"
proof -
  have ok: "fst (spawn (example_env POSIX (always eof)) 7 ''ls'' None None True False idle_world)
              = Inr ()"
    by (simp add: world_defs env_defs glib_defs Let_def)
  note t = spawn_creates_both_channels [OF ok, of "CHR ''l''" 0 None 0]
  note a = t [THEN conjunct1]
  note b = t [THEN conjunct2, THEN conjunct2, THEN conjunct2, THEN conjunct2, THEN conjunct2,
              THEN conjunct2]
  show ?thesis
    by (intro conjI) (rule ok a b)+
qed


subsection \<open>Manual reads\<close>

lemma enter_buffered_fields:
  assumes "switchable (chans w c)"
  shows "use_buffer (chans (enter_buffered c w) c)"
    and "encoding (chans (enter_buffered c w) c) = None"
    and "read_buf (chans (enter_buffered c w) c) = read_buf (chans w c)"
    and "trace (enter_buffered c w)
           = trace w @ (if use_buffer (chans w c) then [] else [SetBuffered c True])"
    and "tick (enter_buffered c w) = tick w"
  using assms
  by (auto simp: enter_buffered_def switchable_def g_io_channel_get_buffered_def
        g_io_channel_set_buffered_def upd_chan_def)


lemma channel_read_buffered:
  assumes "use_buffer (chans w c)"
  shows "read_buf (chans (snd (channel_read e c w)) c) = o_left (reads e (tick w))"
    and "use_buffer (chans (snd (channel_read e c w)) c)"
    and "encoding (chans (snd (channel_read e c w)) c) = encoding (chans w c)"
    and "trace (snd (channel_read e c w)) = trace w @ [Read c True]"
  using assms by (simp_all add: channel_read_def upd_chan_def Let_def)

lemma leave_buffered_fields:
  assumes "encoding (chans w c) = None"
  shows "use_buffer (chans (leave_buffered c w) c)
           = (if read_buf (chans w c) = [] then False else use_buffer (chans w c))"
    and "read_buf (chans (leave_buffered c w) c) = read_buf (chans w c)"
    and "encoding (chans (leave_buffered c w) c) = None"
    and "trace (leave_buffered c w)
           = trace w @ (if read_buf (chans w c) = [] then [SetBuffered c False] else [])"
  using assms
  by (auto simp: leave_buffered_def g_io_channel_get_buffer_condition_def
        g_io_channel_set_buffered_def upd_chan_def G_IO_IN_def)

lemma spawn_switchable:
  assumes "fst (spawn e p cmd cwd envi mo me w) = Inr ()"
  shows "switchable (chans (snd (spawn e p cmd cwd envi mo me w))
                       (cstdout (procs (snd (spawn e p cmd cwd envi mo me w)) p)))"
proof -
  from spawn_success [OF assms] obtain wp where
    wp: "\<And>a b. snd (spawn e p cmd cwd envi a b w) = monitor e p a b wp"
    by blast
  show ?thesis
    by (simp add: wp monitor_result switchable_def)
qed

text \<open>
  C9: a manual read (option \<open>l\<close>, \<open>L\<close>, \<open>a\<close> or \<open>n\<close>) on a stdout channel that GLib lets
  switch, as \<^verbatim>\<open>spawn\<close> creates it and as a manual read leaves it (lemma
  \<open>spawn_switchable\<close> and the last conjunct), first switches the channel to buffered
  mode unless it is buffered already, then makes its one read call on the buffered
  channel, and afterwards switches the channel back to unbuffered mode exactly when the
  read left no bytes in the read buffer; with bytes left the channel stays buffered.
\<close>
theorem manual_read_toggles_buffering:
  assumes "switchable (chans w (cstdout (procs w p)))"
    and "opt \<in> {CHR ''l'', CHR ''L'', CHR ''a'', CHR ''n''}"
  shows "trace (snd (read_process_output e p opt len0 error0 code0 w))
           = trace w
             @ (if use_buffer (chans w (cstdout (procs w p))) then []
                else [SetBuffered (cstdout (procs w p)) True])
             @ [Read (cstdout (procs w p)) True]
             @ (if o_left (reads e (tick w)) = [] then [SetBuffered (cstdout (procs w p)) False]
                else [])
       \<and> read_buf (chans (snd (read_process_output e p opt len0 error0 code0 w))
                     (cstdout (procs w p))) = o_left (reads e (tick w))
       \<and> use_buffer (chans (snd (read_process_output e p opt len0 error0 code0 w))
                       (cstdout (procs w p))) = (o_left (reads e (tick w)) \<noteq> [])
       \<and> switchable (chans (snd (read_process_output e p opt len0 error0 code0 w))
                       (cstdout (procs w p)))"
proof -
  let ?c = "cstdout (procs w p)"
  let ?w1 = "enter_buffered ?c w"
  let ?w2 = "snd (channel_read e ?c ?w1)"
  let ?w3 = "leave_buffered ?c ?w2"
  have w': "snd (read_process_output e p opt len0 error0 code0 w) = ?w3"
    by (simp add: read_process_output_steps Let_def manual_read_world [OF assms(2)])
  note e1 = enter_buffered_fields [OF assms(1)]
  note r2 = channel_read_buffered [OF e1(1), of e]
  have enc: "encoding (chans ?w2 ?c) = None"
    by (simp add: r2 e1)
  note l3 = leave_buffered_fields [OF enc]
  have buf: "read_buf (chans ?w2 ?c) = o_left (reads e (tick w))"
    by (simp add: r2 e1)
  have 1: "trace ?w3 = trace w
             @ (if use_buffer (chans w ?c) then [] else [SetBuffered ?c True])
             @ [Read ?c True]
             @ (if o_left (reads e (tick w)) = [] then [SetBuffered ?c False] else [])"
    by (simp add: l3 buf r2 e1)
  have 2: "read_buf (chans ?w3 ?c) = o_left (reads e (tick w))"
    by (simp add: l3 buf)
  have 3: "use_buffer (chans ?w3 ?c) = (o_left (reads e (tick w)) \<noteq> [])"
    by (simp add: l3 buf r2)
  have 4: "switchable (chans ?w3 ?c)"
    by (simp add: switchable_def l3 buf r2)
  show ?thesis
    unfolding w' by (intro conjI) (rule 1 2 3 4)+
qed


theorem manual_read_toggles_buffering_witness:
  "switchable (chans (spawned_world POSIX) (cstdout (procs (spawned_world POSIX) 7)))
   \<and> CHR ''l'' \<in> {CHR ''l'', CHR ''L'', CHR ''a'', CHR ''n''}
   \<and> trace (snd (read_process_output
         (example_env POSIX (always ((normal [97, 10])\<lparr>o_left := [98]\<rparr>)))
         7 (CHR ''l'') 0 None 0 (spawned_world POSIX)))
       = trace (spawned_world POSIX) @ [SetBuffered 10 True, Read 10 True]
   \<and> use_buffer (chans (snd (read_process_output
         (example_env POSIX (always ((normal [97, 10])\<lparr>o_left := [98]\<rparr>)))
         7 (CHR ''l'') 0 None 0 (spawned_world POSIX))) 10)
   \<and> trace (snd (read_process_output (example_env POSIX (always (normal [97, 10])))
         7 (CHR ''l'') 0 None 0 (spawned_world POSIX)))
       = trace (spawned_world POSIX) @ [SetBuffered 10 True, Read 10 True, SetBuffered 10 False]
   \<and> \<not> use_buffer (chans (snd (read_process_output (example_env POSIX (always (normal [97, 10])))
         7 (CHR ''l'') 0 None 0 (spawned_world POSIX))) 10)"
proof -
  have sw: "switchable (chans (spawned_world POSIX) (cstdout (procs (spawned_world POSIX) 7)))"
    by (simp add: spawned_posix switchable_def)
  have opt: "CHR ''l'' \<in> {CHR ''l'', CHR ''L'', CHR ''a'', CHR ''n''}"
    by simp
  note a = manual_read_toggles_buffering [OF sw opt,
      of "example_env POSIX (always ((normal [97, 10])\<lparr>o_left := [98]\<rparr>))" 0 None 0]
  note b = manual_read_toggles_buffering [OF sw opt,
      of "example_env POSIX (always (normal [97, 10]))" 0 None 0]
  have c: "cstdout (procs (spawned_world POSIX) 7) = 10"
       "use_buffer (chans (spawned_world POSIX) 10) = False"
    by (simp_all add: spawned_posix)
  have l1: "o_left (reads (example_env POSIX (always ((normal [97, 10])\<lparr>o_left := [98]\<rparr>))) n)
              = [98]" for n
    by (simp add: env_defs)
  have l2: "o_left (reads (example_env POSIX (always (normal [97, 10]))) n) = []" for n
    by (simp add: env_defs)
  from a have a': "trace (snd (read_process_output
         (example_env POSIX (always ((normal [97, 10])\<lparr>o_left := [98]\<rparr>)))
         7 (CHR ''l'') 0 None 0 (spawned_world POSIX)))
       = trace (spawned_world POSIX) @ [SetBuffered 10 True, Read 10 True]"
     "use_buffer (chans (snd (read_process_output
         (example_env POSIX (always ((normal [97, 10])\<lparr>o_left := [98]\<rparr>)))
         7 (CHR ''l'') 0 None 0 (spawned_world POSIX))) 10)"
    by (simp_all add: c l1)
  from b have b': "trace (snd (read_process_output (example_env POSIX (always (normal [97, 10])))
         7 (CHR ''l'') 0 None 0 (spawned_world POSIX)))
       = trace (spawned_world POSIX) @ [SetBuffered 10 True, Read 10 True, SetBuffered 10 False]"
     "\<not> use_buffer (chans (snd (read_process_output (example_env POSIX (always (normal [97, 10])))
         7 (CHR ''l'') 0 None 0 (spawned_world POSIX))) 10)"
    by (simp_all add: c l2)
  show ?thesis
    by (intro conjI) (rule sw opt a' b')+
qed












lemma source_finalize_chan:
  "chan_fd (chans (source_finalize s w) c) = chan_fd (chans w c)"
  "read_buf (chans (source_finalize s w) c) = read_buf (chans w c)"
  "fds (source_finalize s w) = fds w"
  "tick (source_finalize s w) = tick w"
  by (cases s; simp add: g_io_channel_unref_def upd_chan_def)+

lemma remove_by_user_data_chan:
  "chan_fd (chans (g_source_remove_by_user_data p w) c) = chan_fd (chans w c)"
  "read_buf (chans (g_source_remove_by_user_data p w) c) = read_buf (chans w c)"
  "fds (g_source_remove_by_user_data p w) = fds w"
  "tick (g_source_remove_by_user_data p w) = tick w"
  by (simp_all add: g_source_remove_by_user_data_def source_finalize_chan split: option.split)

lemma cleanup_process_chan:
  "chan_fd (chans (cleanup_process e p status w) c) = chan_fd (chans w c)"
  "read_buf (chans (cleanup_process e p status w) c) = read_buf (chans w c)"
  "tick (cleanup_process e p status w) = tick w"
  "cstdout (procs (cleanup_process e p status w) p) = cstdout (procs w p)"
  by (simp_all add: cleanup_process_def Let_def upd_proc_def process_exited_def close_def
        CloseHandle_def g_spawn_close_pid_def remove_by_user_data_chan
        remove_by_user_data_fields split: platform.split)

lemma cleanup_process_closes_stdout:
  "fstdout (procs w p) \<notin> fds (cleanup_process e p status w)"
  by (simp add: cleanup_process_def Let_def upd_proc_def process_exited_def close_def
        CloseHandle_def g_spawn_close_pid_def remove_by_user_data_chan
        remove_by_user_data_fields split: platform.split)

lemma exited_stdout_closed:
  assumes "fst (spawn e p cmd cwd envi mo me w) = Inr ()"
  shows "chan_fd (chans (cleanup_process e p status (snd (spawn e p cmd cwd envi mo me w)))
                   (cstdout (procs (cleanup_process e p status
                      (snd (spawn e p cmd cwd envi mo me w))) p)))
           \<notin> fds (cleanup_process e p status (snd (spawn e p cmd cwd envi mo me w)))
       \<and> read_buf (chans (cleanup_process e p status (snd (spawn e p cmd cwd envi mo me w)))
                   (cstdout (procs (cleanup_process e p status
                      (snd (spawn e p cmd cwd envi mo me w))) p))) = []
       \<and> \<not> is_process_running p
               (cleanup_process e p status (snd (spawn e p cmd cwd envi mo me w)))"
proof -
  from spawn_success [OF assms] obtain wp where
    wp: "\<And>a b. snd (spawn e p cmd cwd envi a b w) = monitor e p a b wp"
    by blast
  let ?w1 = "monitor e p mo me wp"
  have fd: "chan_fd (chans ?w1 (cstdout (procs ?w1 p))) = fstdout (procs ?w1 p)"
    and buf: "read_buf (chans ?w1 (cstdout (procs ?w1 p))) = []"
    by (simp_all add: monitor_result)
  show ?thesis
    unfolding wp
    by (simp add: cleanup_process_chan fd buf cleanup_process_closes_stdout
          is_process_running_def cleanup_clears_pid)
qed







end
